theory Spec2Isabelle
  imports Main
begin

section \<open>The urql collaborator\<close>

text \<open>
  The library sits on top of urql's \<open>useQuery\<close>. Only its interface is used: the argument
  object \<open>{query, variables, pause, context}\<close>, the state \<open>{data, fetching, error}\<close> it
  returns, and the execute function that comes with the state. An optional property of a
  TypeScript object (\<open>paused?\<close>, \<open>data?\<close>, \<open>error?\<close>) is an \<open>option\<close>, with \<open>None\<close> for
  \<open>undefined\<close>. urql's \<open>CombinedError\<close> is an object, so \<open>if (error)\<close> asks whether the
  error is there.
\<close>

datatype RequestPolicy = cache_first | cache_only | network_only | cache_and_network

record OperationContext =
  requestPolicy :: "RequestPolicy option"
  suspense :: "bool option"

record ('q, 'v) UseQueryArgs =
  query :: 'q
  variables :: 'v
  pause :: "bool option"
  context_arg :: OperationContext

record ('d, 'c) UseQueryState =
  data :: "'d option"
  fetching :: bool
  error :: "'c option"

text \<open>
  A call of urql's execute function (\<open>_refetch\<close> in the source) with its options. A
  callback of type \<open>() => void\<close> is represented by the calls it makes when invoked.
\<close>

datatype ClientCall = executeQuery OperationContext

text \<open>Truthiness of a value of type \<open>boolean | undefined\<close>.\<close>

fun truthy :: "bool option \<Rightarrow> bool" where
  "truthy None = False"
| "truthy (Some b) = b"

text \<open>
  What a hook does in one render: the value it returns (\<open>Inr\<close>) or the value thrown out
  of it (\<open>Inl\<close>), and the calls it has made on the way, in order.
\<close>

record ('o, 'k) Render =
  outcome :: 'o
  calls :: "'k list"

section \<open>useQuery.ts: the result union and the classifier hook\<close>

text \<open>
  What a callback may throw: JavaScript throws any value, and the \<open>catch\<close> clause of
  \<open>useAppQuery\<close> separates the instances of \<open>Error\<close> from the rest.
\<close>

datatype ('e, 'x) Thrown = ErrorInstance 'e | OtherValue 'x

text \<open>
  The objects that reach \<open>ErrorResult\<close>: the client's \<open>CombinedError\<close>, handed over as it
  is, the two classes of this file, and the plain \<open>new Error(message)\<close> of the retry hook.
  \<open>SelectorError\<close> holds its \<open>cause\<close>, absent when the constructor got no argument.
\<close>

datatype ('c, 'e) QueryError =
    CombinedError 'c
  | SelectorError "'e option"
  | NoDataError
  | Error string


datatype ('s, 'c, 'e) QueryResult =
    PausedResult
  | FetchingResult
  | SuccessResult 's
  | ErrorResult "('c, 'e) QueryError"

fun status :: "('s, 'c, 'e) QueryResult \<Rightarrow> string" where
  "status PausedResult = ''paused''"
| "status FetchingResult = ''fetching''"
| "status (SuccessResult v) = ''success''"
| "status (ErrorResult e) = ''error''"

record ('r, 'd) UseAppQueryReturn =
  result :: 'r
  refetch :: "ClientCall list"
  rawValue :: "'d option"

record ('q, 'v, 'd, 's, 'e, 'x) UseAppQueryProps =
  query :: 'q
  variables :: 'v
  selector :: "'d \<Rightarrow> ('e, 'x) Thrown + 's"
  paused :: "bool option"
  requestPolicy :: "RequestPolicy option"

text \<open>The argument object that \<open>useAppQuery\<close> passes to urql's \<open>useQuery\<close>.\<close>

definition useQuery_args ::
  "('q, 'v, 'd, 's, 'e, 'x) UseAppQueryProps \<Rightarrow> ('q, 'v) UseQueryArgs" where
  "useQuery_args props =
     \<lparr>UseQueryArgs.query = UseAppQueryProps.query props,
      UseQueryArgs.variables = UseAppQueryProps.variables props,
      pause = paused props,
      context_arg = \<lparr>OperationContext.requestPolicy = UseAppQueryProps.requestPolicy props,
                     suspense = Some False\<rparr>\<rparr>"

text \<open>The body of the \<open>useCallback\<close>: one call of \<open>_refetch\<close>.\<close>

definition refetch_callback :: "ClientCall list" where
  "refetch_callback =
     [executeQuery \<lparr>OperationContext.requestPolicy = Some network_only, suspense = None\<rparr>]"

text \<open>\<open>resultWrapper\<close> closes over \<open>data\<close> and \<open>refetch\<close>; \<open>data\<close> is its first argument here.\<close>

definition resultWrapper :: "'d option \<Rightarrow> 'r \<Rightarrow> ('r, 'd) UseAppQueryReturn" where
  "resultWrapper d r = \<lparr>result = r, refetch = refetch_callback, rawValue = d\<rparr>"

text \<open>
  The \<open>catch\<close> clause of \<open>useAppQuery\<close>: an instance of \<open>Error\<close> becomes the cause of the
  \<open>SelectorError\<close>, any other thrown value is dropped.
\<close>

fun catch_selector :: "('e, 'x) Thrown \<Rightarrow> ('c, 'e) QueryError" where
  "catch_selector (ErrorInstance e) = SelectorError (Some e)"
| "catch_selector (OtherValue x) = SelectorError None"

text \<open>
  The hook. Its first parameter stands for JavaScript's truthiness of a value of the type
  parameter \<open>Data\<close>, which the source leaves unconstrained: \<open>!data\<close> holds when \<open>data\<close> is
  \<open>undefined\<close>, and also when it is one of the falsy values of its type (\<open>null\<close>, \<open>0\<close>,
  \<open>NaN\<close>, the empty string, \<open>false\<close>). The second parameter is urql's \<open>useQuery\<close>. The
  hook calls it once, whatever the props.
\<close>

definition useAppQuery ::
  "('d \<Rightarrow> bool) \<Rightarrow> (('q, 'v) UseQueryArgs \<Rightarrow> ('d, 'c) UseQueryState) \<Rightarrow>
   ('q, 'v, 'd, 's, 'e, 'x) UseAppQueryProps \<Rightarrow>
   (('e, 'x) Thrown + (('s, 'c, 'e) QueryResult, 'd) UseAppQueryReturn,
    ('q, 'v) UseQueryArgs) Render" where
  "useAppQuery ToBoolean urql props =
     (let args = useQuery_args props;
          st = urql args
      in \<lparr>outcome =
            (if truthy (paused props) then Inr (resultWrapper (data st) PausedResult)
             else if fetching st then Inr (resultWrapper (data st) FetchingResult)
             else case error st of
               Some err \<Rightarrow> Inr (resultWrapper (data st) (ErrorResult (CombinedError err)))
             | None \<Rightarrow>
                 (case data st of
                    None \<Rightarrow> Inr (resultWrapper (data st) (ErrorResult NoDataError))
                  | Some d \<Rightarrow>
                      if \<not> ToBoolean d
                      then Inr (resultWrapper (data st) (ErrorResult NoDataError))
                      else
                        (case selector props d of
                           Inr v \<Rightarrow> Inr (resultWrapper (data st) (SuccessResult v))
                         | Inl t \<Rightarrow>
                             Inr (resultWrapper (data st) (ErrorResult (catch_selector t)))))),
          calls = [args]\<rparr>)"

section \<open>useRetryableQuery.ts: the retry hook\<close>

text \<open>The verdict of \<open>retryIf\<close>, of type \<open>boolean | 'bail'\<close>.\<close>

datatype RetryIf = Boolean bool | bail

text \<open>
  A JavaScript \<open>number\<close> is taken as an integer: \<open>maxRetryCount\<close> and the delays are of type
  \<open>int\<close>. The attempt count starts at \<open>0\<close> and only ever grows by \<open>1\<close>, so it is a \<open>nat\<close>.
  \<open>retryIf\<close> is called in the body of the hook with nothing around it, so what it throws
  leaves the hook: it returns its verdict (\<open>Inr\<close>) or throws (\<open>Inl\<close>).
\<close>

record ('q, 'v, 'd, 's, 'e, 'x) UseRetryableQueryProps =
  query :: 'q
  variables :: 'v
  pause :: "bool option"
  selector :: "'d \<Rightarrow> ('e, 'x) Thrown + 's"
  retryIf :: "'d option \<Rightarrow> ('e, 'x) Thrown + RetryIf"
  retryDelay :: "(nat \<Rightarrow> int) option"
  maxRetryCount :: int

text \<open>
  The output union \<open>QueryResult<SelectedData> | RetryingResult\<close>; \<open>RetryingResult\<close> holds
  \<open>counts\<close>.
\<close>

datatype ('s, 'c, 'e) RetryableResult =
    Query "('s, 'c, 'e) QueryResult"
  | RetryingResult nat

fun retryable_status :: "('s, 'c, 'e) RetryableResult \<Rightarrow> string" where
  "retryable_status (Query r) = status r"
| "retryable_status (RetryingResult counts) = ''retrying''"

text \<open>
  Modelled from the spec: \<open>wait\<close> of \<open>./utils\<close> is not among the sources. It is a deferred
  task that completes after the given number of milliseconds; the continuation attached
  with \<open>then\<close> runs once, at some later moment. A pending task is recorded with its delay
  and with what its continuation has captured from the render that created it: the
  \<open>maxRetryCount\<close> of \<open>input\<close> and \<open>query.refetch\<close>. The counter is not captured: the
  continuation reads \<open>retryCounts.current\<close> when it runs.
\<close>

record Pending =
  delay :: int
  captured_maxRetryCount :: int
  captured_refetch :: "ClientCall list"

text \<open>
  One mounted use of the hook. \<open>retryCounts\<close> is the \<open>useRef(0)\<close>. \<open>deps\<close> holds the
  dependency array \<open>[shouldRetry, query.result.status]\<close> of the last render, \<open>None\<close> before
  the first one: React runs the effect after the first render and after each render whose
  array differs from the previous one. \<open>waiting\<close> lists the deferred tasks not yet run.
  \<open>mounted\<close> is React's own knowledge of the instance; no line of the hook reads it.
\<close>

record Instance =
  retryCounts :: nat
  deps :: "(RetryIf \<times> string) option"
  waiting :: "Pending list"
  mounted :: bool

definition mount :: Instance where
  "mount = \<lparr>retryCounts = 0, deps = None, waiting = [], mounted = True\<rparr>"

definition unmount :: "Instance \<Rightarrow> Instance" where
  "unmount inst = inst\<lparr>mounted := False\<rparr>"

text \<open>
  The calls the retry hook makes in a render: of \<open>useAppQuery\<close>, with its props, and
  through it of urql's \<open>useQuery\<close>, with its arguments.
\<close>

datatype ('q, 'v, 'd, 's, 'e, 'x) HookCall =
    useAppQuery_call "('q, 'v, 'd, 's, 'e, 'x) UseAppQueryProps"
  | useQuery_call "('q, 'v) UseQueryArgs"

text \<open>A render of the retry hook leaves the instance as well, as React commits it.\<close>

record ('o, 'k) RetryRender = "('o, 'k) Render" +
  committed :: Instance

definition shouldPause ::
  "('q, 'v, 'd, 's, 'e, 'x) UseRetryableQueryProps \<Rightarrow> nat \<Rightarrow> bool" where
  "shouldPause input n = (truthy (pause input) \<or> int n \<ge> maxRetryCount input)"

text \<open>The argument object that \<open>useRetryableQuery\<close> passes to \<open>useAppQuery\<close>.\<close>

definition useAppQuery_props ::
  "('q, 'v, 'd, 's, 'e, 'x) UseRetryableQueryProps \<Rightarrow> nat \<Rightarrow>
   ('q, 'v, 'd, 's, 'e, 'x) UseAppQueryProps" where
  "useAppQuery_props input n =
     \<lparr>UseAppQueryProps.query = UseRetryableQueryProps.query input,
      UseAppQueryProps.variables = UseRetryableQueryProps.variables input,
      UseAppQueryProps.selector = UseRetryableQueryProps.selector input,
      paused = Some (shouldPause input n),
      UseAppQueryProps.requestPolicy = Some network_only\<rparr>"

text \<open>
  The callback given to \<open>useEffect\<close>, run with the counter \<open>n\<close>: the task it hands to
  \<open>wait\<close>, if any.
\<close>

definition effect_callback ::
  "('q, 'v, 'd, 's, 'e, 'x) UseRetryableQueryProps \<Rightarrow> RetryIf \<Rightarrow>
   (('s, 'c, 'e) QueryResult, 'd) UseAppQueryReturn \<Rightarrow> nat \<Rightarrow> Pending option" where
  "effect_callback input shouldRetry qry n =
     (if shouldRetry \<noteq> Boolean True then None
      else if status (result qry) \<noteq> ''fetching'' then None
      else if int n \<ge> maxRetryCount input then None
      else
        let nextRetryCount = n + 1;
            delay = (case retryDelay input of
                       Some f \<Rightarrow> f nextRetryCount
                     | None \<Rightarrow> int nextRetryCount * 1000)
        in Some \<lparr>delay = delay,
                 captured_maxRetryCount = maxRetryCount input,
                 captured_refetch = refetch qry\<rparr>)"

text \<open>
  \<open>useEffect\<close> with its dependency array: the instance after the render is committed.
\<close>

definition useEffect :: "Instance \<Rightarrow> (RetryIf \<times> string) \<Rightarrow> Pending option \<Rightarrow> Instance" where
  "useEffect inst ds task =
     (if deps inst = Some ds then inst
      else inst\<lparr>deps := Some ds,
                waiting := waiting inst @ (case task of None \<Rightarrow> [] | Some p \<Rightarrow> [p])\<rparr>)"

text \<open>
  The value the hook returns (lines 86 to 108), from the counter, the verdict of \<open>retryIf\<close>
  and the return value of \<open>useAppQuery\<close>.
\<close>

definition retry_return ::
  "('q, 'v, 'd, 's, 'e, 'x) UseRetryableQueryProps \<Rightarrow> nat \<Rightarrow> RetryIf \<Rightarrow>
   (('s, 'c, 'e) QueryResult, 'd) UseAppQueryReturn \<Rightarrow>
   (('s, 'c, 'e) RetryableResult, 'd) UseAppQueryReturn" where
  "retry_return input n shouldRetry qry =
     (if int n \<ge> maxRetryCount input
      then \<lparr>result = Query (ErrorResult (Error ''Max retry count exceeded'')),
            refetch = refetch qry, rawValue = rawValue qry\<rparr>
      else case shouldRetry of
        bail \<Rightarrow> \<lparr>result = Query (ErrorResult (Error ''Bailed'')),
                 refetch = refetch qry, rawValue = rawValue qry\<rparr>
      | Boolean True \<Rightarrow> \<lparr>result = RetryingResult n,
                         refetch = refetch qry, rawValue = rawValue qry\<rparr>
      | Boolean False \<Rightarrow> \<lparr>result = Query (result qry),
                          refetch = refetch qry, rawValue = rawValue qry\<rparr>)"

text \<open>
  One render of the hook on an instance, in the order of the source: \<open>useAppQuery\<close> is
  called, then \<open>retryIf\<close> on the raw data, then the effect is registered and the value
  returned. A render that throws commits nothing: its effect does not run and the instance
  stays as it was. The calls made before the throw have been made.
\<close>

definition useRetryableQuery ::
  "('d \<Rightarrow> bool) \<Rightarrow> (('q, 'v) UseQueryArgs \<Rightarrow> ('d, 'c) UseQueryState) \<Rightarrow>
   ('q, 'v, 'd, 's, 'e, 'x) UseRetryableQueryProps \<Rightarrow> Instance \<Rightarrow>
   (('e, 'x) Thrown + (('s, 'c, 'e) RetryableResult, 'd) UseAppQueryReturn,
    ('q, 'v, 'd, 's, 'e, 'x) HookCall) RetryRender" where
  "useRetryableQuery ToBoolean urql input inst =
     (let n = retryCounts inst;
          props = useAppQuery_props input n;
          rendered = useAppQuery ToBoolean urql props;
          called = useAppQuery_call props # map useQuery_call (calls rendered)
      in case outcome rendered of
        Inl t \<Rightarrow> \<lparr>outcome = Inl t, calls = called, committed = inst\<rparr>
      | Inr qry \<Rightarrow>
          (case retryIf input (rawValue qry) of
             Inl t \<Rightarrow> \<lparr>outcome = Inl t, calls = called, committed = inst\<rparr>
           | Inr shouldRetry \<Rightarrow>
               \<lparr>outcome = Inr (retry_return input n shouldRetry qry),
                calls = called,
                committed = useEffect inst (shouldRetry, status (result qry))
                              (effect_callback input shouldRetry qry n)\<rparr>))"

text \<open>
  The continuation of a deferred task, run on the instance as it is at that moment: the
  instance afterwards and the client calls made.
\<close>

definition then_callback :: "Pending \<Rightarrow> Instance \<Rightarrow> Instance \<times> ClientCall list" where
  "then_callback p inst =
     (if int (retryCounts inst) \<ge> captured_maxRetryCount p then (inst, [])
      else (inst\<lparr>retryCounts := retryCounts inst + 1\<rparr>, captured_refetch p))"

text \<open>
  The deferred task at position \<open>i\<close> completes: it leaves the list and its continuation
  runs. The tasks complete in the order of their deadlines, which need not be the order in
  which they were created, so any position can be the next. Nothing happens when there is
  no such task.
\<close>

definition fire :: "nat \<Rightarrow> Instance \<Rightarrow> Instance \<times> ClientCall list" where
  "fire i inst =
     (if i < length (waiting inst)
      then then_callback (waiting inst ! i)
             (inst\<lparr>waiting := take i (waiting inst) @ drop (Suc i) (waiting inst)\<rparr>)
      else (inst, []))"

section \<open>Properties of the classifier hook\<close>

text \<open>No path through \<open>useAppQuery\<close> throws, whatever the selector does.\<close>

lemma useAppQuery_Inr:
  "\<exists>r. outcome (useAppQuery ToBoolean urql props) = Inr r"
  by (simp add: useAppQuery_def Let_def split: option.split sum.split)

text \<open>Every return path goes through \<open>resultWrapper\<close>.\<close>

lemma useAppQuery_fields:
  "outcome (useAppQuery ToBoolean urql props) = Inr r \<Longrightarrow>
     refetch r = refetch_callback \<and> rawValue r = data (urql (useQuery_args props))"
  by (auto simp add: useAppQuery_def Let_def resultWrapper_def
      split: option.splits sum.splits if_splits)

lemma useAppQuery_calls:
  "calls (useAppQuery ToBoolean urql props) = [useQuery_args props]"
  by (simp add: useAppQuery_def Let_def)

lemma truthy_iff: "truthy b = (b = Some True)"
  by (cases b) auto

text \<open>
  C1, amended. \<open>useAppQuery\<close> classifies by the first test that succeeds: \<open>paused\<close> true
  gives the paused result whatever the client reports; otherwise a fetching client gives
  the fetching result; otherwise a client error gives the error result holding that error;
  otherwise data that are absent or falsy (\<open>!data\<close>) give the error result holding a
  \<open>NoDataError\<close>; otherwise the selector is applied to the data.
\<close>

theorem useAppQuery_cascade:
  fixes urql :: "('q, 'v) UseQueryArgs \<Rightarrow> ('d, 'c) UseQueryState"
    and props :: "('q, 'v, 'd, 's, 'e, 'x) UseAppQueryProps"
  shows
  "(paused props = Some True \<longrightarrow>
      outcome (useAppQuery ToBoolean urql props)
        = Inr \<lparr>result = PausedResult, refetch = refetch_callback,
               rawValue = data (urql (useQuery_args props))\<rparr>)
   \<and> (paused props \<noteq> Some True \<and> fetching (urql (useQuery_args props)) \<longrightarrow>
      outcome (useAppQuery ToBoolean urql props)
        = Inr \<lparr>result = FetchingResult, refetch = refetch_callback,
               rawValue = data (urql (useQuery_args props))\<rparr>)
   \<and> (paused props \<noteq> Some True \<and> \<not> fetching (urql (useQuery_args props))
        \<and> error (urql (useQuery_args props)) = Some err \<longrightarrow>
      outcome (useAppQuery ToBoolean urql props)
        = Inr \<lparr>result = ErrorResult (CombinedError err), refetch = refetch_callback,
               rawValue = data (urql (useQuery_args props))\<rparr>)
   \<and> (paused props \<noteq> Some True \<and> \<not> fetching (urql (useQuery_args props))
        \<and> error (urql (useQuery_args props)) = None
        \<and> data (urql (useQuery_args props)) = None \<longrightarrow>
      outcome (useAppQuery ToBoolean urql props)
        = Inr \<lparr>result = ErrorResult NoDataError, refetch = refetch_callback,
               rawValue = None\<rparr>)
   \<and> (paused props \<noteq> Some True \<and> \<not> fetching (urql (useQuery_args props))
        \<and> error (urql (useQuery_args props)) = None
        \<and> data (urql (useQuery_args props)) = Some d \<and> \<not> ToBoolean d \<longrightarrow>
      outcome (useAppQuery ToBoolean urql props)
        = Inr \<lparr>result = ErrorResult NoDataError, refetch = refetch_callback,
               rawValue = Some d\<rparr>)
   \<and> (paused props \<noteq> Some True \<and> \<not> fetching (urql (useQuery_args props))
        \<and> error (urql (useQuery_args props)) = None
        \<and> data (urql (useQuery_args props)) = Some d \<and> ToBoolean d \<longrightarrow>
      outcome (useAppQuery ToBoolean urql props)
        = Inr \<lparr>result = (case UseAppQueryProps.selector props d of
                           Inr v \<Rightarrow> SuccessResult v
                         | Inl t \<Rightarrow> ErrorResult (catch_selector t)),
               refetch = refetch_callback, rawValue = Some d\<rparr>)"
  unfolding useAppQuery_def Let_def truthy_iff resultWrapper_def
  by (simp split: sum.split)

theorem useAppQuery_cascade_witness:
  "outcome (useAppQuery (\<lambda>d. d \<noteq> (0::nat))
       (\<lambda>a. \<lparr>data = Some (3::nat), fetching = True, error = Some ''down''\<rparr>)
       \<lparr>UseAppQueryProps.query = (), variables = (),
        selector = (\<lambda>d. Inr (Suc d) :: (string, unit) Thrown + nat),
        paused = Some True, requestPolicy = None\<rparr>)
     = Inr \<lparr>result = PausedResult, refetch = refetch_callback, rawValue = Some 3\<rparr>
   \<and> outcome (useAppQuery (\<lambda>d. d \<noteq> (0::nat))
       (\<lambda>a. \<lparr>data = Some (3::nat), fetching = True, error = Some ''down''\<rparr>)
       \<lparr>UseAppQueryProps.query = (), variables = (),
        selector = (\<lambda>d. Inr (Suc d) :: (string, unit) Thrown + nat),
        paused = None, requestPolicy = None\<rparr>)
     = Inr \<lparr>result = FetchingResult, refetch = refetch_callback, rawValue = Some 3\<rparr>
   \<and> outcome (useAppQuery (\<lambda>d. d \<noteq> (0::nat))
       (\<lambda>a. \<lparr>data = Some (3::nat), fetching = False, error = Some ''down''\<rparr>)
       \<lparr>UseAppQueryProps.query = (), variables = (),
        selector = (\<lambda>d. Inr (Suc d) :: (string, unit) Thrown + nat),
        paused = Some False, requestPolicy = None\<rparr>)
     = Inr \<lparr>result = ErrorResult (CombinedError ''down''), refetch = refetch_callback, rawValue = Some 3\<rparr>
   \<and> outcome (useAppQuery (\<lambda>d. d \<noteq> (0::nat))
       (\<lambda>a. \<lparr>data = (None :: nat option), fetching = False, error = (None :: string option)\<rparr>)
       \<lparr>UseAppQueryProps.query = (), variables = (),
        selector = (\<lambda>d. Inr (Suc d) :: (string, unit) Thrown + nat),
        paused = None, requestPolicy = None\<rparr>)
     = Inr \<lparr>result = ErrorResult NoDataError, refetch = refetch_callback, rawValue = None\<rparr>
   \<and> outcome (useAppQuery (\<lambda>d. d \<noteq> (0::nat))
       (\<lambda>a. \<lparr>data = Some (0::nat), fetching = False, error = (None :: string option)\<rparr>)
       \<lparr>UseAppQueryProps.query = (), variables = (),
        selector = (\<lambda>d. Inr (Suc d) :: (string, unit) Thrown + nat),
        paused = None, requestPolicy = None\<rparr>)
     = Inr \<lparr>result = ErrorResult NoDataError, refetch = refetch_callback, rawValue = Some 0\<rparr>
   \<and> outcome (useAppQuery (\<lambda>d. d \<noteq> (0::nat))
       (\<lambda>a. \<lparr>data = Some (3::nat), fetching = False, error = (None :: string option)\<rparr>)
       \<lparr>UseAppQueryProps.query = (), variables = (),
        selector = (\<lambda>d. Inr (Suc d) :: (string, unit) Thrown + nat),
        paused = None, requestPolicy = None\<rparr>)
     = Inr \<lparr>result = SuccessResult 4, refetch = refetch_callback, rawValue = Some 3\<rparr>"
proof -
  have g0: "outcome (useAppQuery (\<lambda>d. d \<noteq> (0::nat))
       (\<lambda>a. \<lparr>data = Some (3::nat), fetching = True, error = Some ''down''\<rparr>)
       \<lparr>UseAppQueryProps.query = (), variables = (),
        selector = (\<lambda>d. Inr (Suc d) :: (string, unit) Thrown + nat),
        paused = Some True, requestPolicy = None\<rparr>)
     = Inr \<lparr>result = PausedResult, refetch = refetch_callback, rawValue = Some 3\<rparr>"
    using useAppQuery_cascade
      [where ToBoolean = "(\<lambda>d. d \<noteq> (0::nat))"
         and urql = "(\<lambda>a. \<lparr>data = Some (3::nat), fetching = True, error = Some ''down''\<rparr>)"
         and props = "\<lparr>UseAppQueryProps.query = (), variables = (),
        selector = (\<lambda>d. Inr (Suc d) :: (string, unit) Thrown + nat),
        paused = Some True, requestPolicy = None\<rparr>"]
    by simp
  have g1: "outcome (useAppQuery (\<lambda>d. d \<noteq> (0::nat))
       (\<lambda>a. \<lparr>data = Some (3::nat), fetching = True, error = Some ''down''\<rparr>)
       \<lparr>UseAppQueryProps.query = (), variables = (),
        selector = (\<lambda>d. Inr (Suc d) :: (string, unit) Thrown + nat),
        paused = None, requestPolicy = None\<rparr>)
     = Inr \<lparr>result = FetchingResult, refetch = refetch_callback, rawValue = Some 3\<rparr>"
    using useAppQuery_cascade
      [where ToBoolean = "(\<lambda>d. d \<noteq> (0::nat))"
         and urql = "(\<lambda>a. \<lparr>data = Some (3::nat), fetching = True, error = Some ''down''\<rparr>)"
         and props = "\<lparr>UseAppQueryProps.query = (), variables = (),
        selector = (\<lambda>d. Inr (Suc d) :: (string, unit) Thrown + nat),
        paused = None, requestPolicy = None\<rparr>"]
    by simp
  have g2: "outcome (useAppQuery (\<lambda>d. d \<noteq> (0::nat))
       (\<lambda>a. \<lparr>data = Some (3::nat), fetching = False, error = Some ''down''\<rparr>)
       \<lparr>UseAppQueryProps.query = (), variables = (),
        selector = (\<lambda>d. Inr (Suc d) :: (string, unit) Thrown + nat),
        paused = Some False, requestPolicy = None\<rparr>)
     = Inr \<lparr>result = ErrorResult (CombinedError ''down''), refetch = refetch_callback, rawValue = Some 3\<rparr>"
    using useAppQuery_cascade
      [where ToBoolean = "(\<lambda>d. d \<noteq> (0::nat))"
         and urql = "(\<lambda>a. \<lparr>data = Some (3::nat), fetching = False, error = Some ''down''\<rparr>)"
         and props = "\<lparr>UseAppQueryProps.query = (), variables = (),
        selector = (\<lambda>d. Inr (Suc d) :: (string, unit) Thrown + nat),
        paused = Some False, requestPolicy = None\<rparr>"
         and err = "''down''"]
    by simp
  have g3: "outcome (useAppQuery (\<lambda>d. d \<noteq> (0::nat))
       (\<lambda>a. \<lparr>data = (None :: nat option), fetching = False, error = (None :: string option)\<rparr>)
       \<lparr>UseAppQueryProps.query = (), variables = (),
        selector = (\<lambda>d. Inr (Suc d) :: (string, unit) Thrown + nat),
        paused = None, requestPolicy = None\<rparr>)
     = Inr \<lparr>result = ErrorResult NoDataError, refetch = refetch_callback, rawValue = None\<rparr>"
    using useAppQuery_cascade
      [where ToBoolean = "(\<lambda>d. d \<noteq> (0::nat))"
         and urql = "(\<lambda>a. \<lparr>data = (None :: nat option), fetching = False, error = (None :: string option)\<rparr>)"
         and props = "\<lparr>UseAppQueryProps.query = (), variables = (),
        selector = (\<lambda>d. Inr (Suc d) :: (string, unit) Thrown + nat),
        paused = None, requestPolicy = None\<rparr>"]
    by simp
  have g4: "outcome (useAppQuery (\<lambda>d. d \<noteq> (0::nat))
       (\<lambda>a. \<lparr>data = Some (0::nat), fetching = False, error = (None :: string option)\<rparr>)
       \<lparr>UseAppQueryProps.query = (), variables = (),
        selector = (\<lambda>d. Inr (Suc d) :: (string, unit) Thrown + nat),
        paused = None, requestPolicy = None\<rparr>)
     = Inr \<lparr>result = ErrorResult NoDataError, refetch = refetch_callback, rawValue = Some 0\<rparr>"
    using useAppQuery_cascade
      [where ToBoolean = "(\<lambda>d. d \<noteq> (0::nat))"
         and urql = "(\<lambda>a. \<lparr>data = Some (0::nat), fetching = False, error = (None :: string option)\<rparr>)"
         and props = "\<lparr>UseAppQueryProps.query = (), variables = (),
        selector = (\<lambda>d. Inr (Suc d) :: (string, unit) Thrown + nat),
        paused = None, requestPolicy = None\<rparr>"
         and d = 0]
    by simp
  have g5: "outcome (useAppQuery (\<lambda>d. d \<noteq> (0::nat))
       (\<lambda>a. \<lparr>data = Some (3::nat), fetching = False, error = (None :: string option)\<rparr>)
       \<lparr>UseAppQueryProps.query = (), variables = (),
        selector = (\<lambda>d. Inr (Suc d) :: (string, unit) Thrown + nat),
        paused = None, requestPolicy = None\<rparr>)
     = Inr \<lparr>result = SuccessResult 4, refetch = refetch_callback, rawValue = Some 3\<rparr>"
    using useAppQuery_cascade
      [where ToBoolean = "(\<lambda>d. d \<noteq> (0::nat))"
         and urql = "(\<lambda>a. \<lparr>data = Some (3::nat), fetching = False, error = (None :: string option)\<rparr>)"
         and props = "\<lparr>UseAppQueryProps.query = (), variables = (),
        selector = (\<lambda>d. Inr (Suc d) :: (string, unit) Thrown + nat),
        paused = None, requestPolicy = None\<rparr>"
         and d = 3]
    by simp
  from g0 g1 g2 g3 g4 g5 show ?thesis by blast
qed

text \<open>
  Data that are there do not always reach the selector. For a query whose data are a
  number, the client reports the data \<open>0\<close> and no error; the selector would return \<open>1\<close>,
  and the result is the error result holding a \<open>NoDataError\<close>.
\<close>

theorem useAppQuery_cascade_counterexample:
  "data ((\<lambda>a. \<lparr>data = Some (0::nat), fetching = False, error = (None :: string option)\<rparr>)
       (useQuery_args \<lparr>UseAppQueryProps.query = (), variables = (),
        selector = (\<lambda>d. Inr (Suc d) :: (string, unit) Thrown + nat),
        paused = None, requestPolicy = None\<rparr>))
     = Some 0
   \<and> UseAppQueryProps.selector \<lparr>UseAppQueryProps.query = (), variables = (),
        selector = (\<lambda>d. Inr (Suc d) :: (string, unit) Thrown + nat),
        paused = None, requestPolicy = None\<rparr> 0
     = Inr 1
   \<and> outcome (useAppQuery (\<lambda>d. d \<noteq> (0::nat))
       (\<lambda>a. \<lparr>data = Some (0::nat), fetching = False, error = (None :: string option)\<rparr>)
       \<lparr>UseAppQueryProps.query = (), variables = (),
        selector = (\<lambda>d. Inr (Suc d) :: (string, unit) Thrown + nat),
        paused = None, requestPolicy = None\<rparr>)
     = Inr \<lparr>result = ErrorResult NoDataError, refetch = refetch_callback, rawValue = Some 0\<rparr>"
  by (simp add: useAppQuery_def resultWrapper_def)

text \<open>
  C2, amended. When the caller has not paused, the client is not fetching, reports no error
  and has data that are truthy: a selector that returns \<open>v\<close> gives the success result with
  \<open>v\<close>; a selector that throws an \<open>Error\<close> gives the error result with a \<open>SelectorError\<close>
  whose cause is that error; a selector that throws anything else gives a \<open>SelectorError\<close>
  without cause. In every case the hook returns; nothing is thrown out of it.
\<close>

theorem useAppQuery_selector:
  fixes urql :: "('q, 'v) UseQueryArgs \<Rightarrow> ('d, 'c) UseQueryState"
    and props :: "('q, 'v, 'd, 's, 'e, 'x) UseAppQueryProps"
  assumes "paused props \<noteq> Some True"
    and "\<not> fetching (urql (useQuery_args props))"
    and "error (urql (useQuery_args props)) = None"
    and "data (urql (useQuery_args props)) = Some d"
    and "ToBoolean d"
  shows "(\<forall>v. UseAppQueryProps.selector props d = Inr v \<longrightarrow>
            outcome (useAppQuery ToBoolean urql props)
              = Inr \<lparr>result = SuccessResult v, refetch = refetch_callback,
                     rawValue = Some d\<rparr>)
       \<and> (\<forall>e. UseAppQueryProps.selector props d = Inl (ErrorInstance e) \<longrightarrow>
            outcome (useAppQuery ToBoolean urql props)
              = Inr \<lparr>result = ErrorResult (SelectorError (Some e)),
                     refetch = refetch_callback, rawValue = Some d\<rparr>)
       \<and> (\<forall>x. UseAppQueryProps.selector props d = Inl (OtherValue x) \<longrightarrow>
            outcome (useAppQuery ToBoolean urql props)
              = Inr \<lparr>result = ErrorResult (SelectorError None),
                     refetch = refetch_callback, rawValue = Some d\<rparr>)
       \<and> (\<exists>r. outcome (useAppQuery ToBoolean urql props) = Inr r)"
  using assms useAppQuery_Inr [of ToBoolean urql props]
  by (simp add: useAppQuery_def Let_def truthy_iff resultWrapper_def)

theorem useAppQuery_selector_witness:
  "outcome (useAppQuery (\<lambda>d. d \<noteq> (0::nat))
       (\<lambda>a. \<lparr>data = Some (3::nat), fetching = False, error = (None :: string option)\<rparr>)
       \<lparr>UseAppQueryProps.query = (), variables = (),
        selector = (\<lambda>d. if d = 5 then Inl (ErrorInstance ''five'')
                        else if d = 6 then Inl (OtherValue ()) else Inr (Suc d)),
        paused = None, requestPolicy = Some cache_first\<rparr>)
     = Inr \<lparr>result = SuccessResult 4, refetch = refetch_callback, rawValue = Some 3\<rparr>
   \<and> outcome (useAppQuery (\<lambda>d. d \<noteq> (0::nat))
       (\<lambda>a. \<lparr>data = Some (5::nat), fetching = False, error = (None :: string option)\<rparr>)
       \<lparr>UseAppQueryProps.query = (), variables = (),
        selector = (\<lambda>d. if d = 5 then Inl (ErrorInstance ''five'')
                        else if d = 6 then Inl (OtherValue ()) else Inr (Suc d)),
        paused = None, requestPolicy = Some cache_first\<rparr>)
     = Inr \<lparr>result = ErrorResult (SelectorError (Some ''five'')), refetch = refetch_callback, rawValue = Some 5\<rparr>
   \<and> outcome (useAppQuery (\<lambda>d. d \<noteq> (0::nat))
       (\<lambda>a. \<lparr>data = Some (6::nat), fetching = False, error = (None :: string option)\<rparr>)
       \<lparr>UseAppQueryProps.query = (), variables = (),
        selector = (\<lambda>d. if d = 5 then Inl (ErrorInstance ''five'')
                        else if d = 6 then Inl (OtherValue ()) else Inr (Suc d)),
        paused = None, requestPolicy = Some cache_first\<rparr>)
     = Inr \<lparr>result = ErrorResult (SelectorError None), refetch = refetch_callback, rawValue = Some 6\<rparr>"
proof -
  have g0: "outcome (useAppQuery (\<lambda>d. d \<noteq> (0::nat))
       (\<lambda>a. \<lparr>data = Some (3::nat), fetching = False, error = (None :: string option)\<rparr>)
       \<lparr>UseAppQueryProps.query = (), variables = (),
        selector = (\<lambda>d. if d = 5 then Inl (ErrorInstance ''five'')
                        else if d = 6 then Inl (OtherValue ()) else Inr (Suc d)),
        paused = None, requestPolicy = Some cache_first\<rparr>)
     = Inr \<lparr>result = SuccessResult 4, refetch = refetch_callback, rawValue = Some 3\<rparr>"
    using useAppQuery_selector
      [where ToBoolean = "(\<lambda>d. d \<noteq> (0::nat))"
         and urql = "(\<lambda>a. \<lparr>data = Some (3::nat), fetching = False, error = (None :: string option)\<rparr>)"
         and props = "\<lparr>UseAppQueryProps.query = (), variables = (),
        selector = (\<lambda>d. if d = 5 then Inl (ErrorInstance ''five'')
                        else if d = 6 then Inl (OtherValue ()) else Inr (Suc d)),
        paused = None, requestPolicy = Some cache_first\<rparr>"
         and d = 3]
    by simp
  have g1: "outcome (useAppQuery (\<lambda>d. d \<noteq> (0::nat))
       (\<lambda>a. \<lparr>data = Some (5::nat), fetching = False, error = (None :: string option)\<rparr>)
       \<lparr>UseAppQueryProps.query = (), variables = (),
        selector = (\<lambda>d. if d = 5 then Inl (ErrorInstance ''five'')
                        else if d = 6 then Inl (OtherValue ()) else Inr (Suc d)),
        paused = None, requestPolicy = Some cache_first\<rparr>)
     = Inr \<lparr>result = ErrorResult (SelectorError (Some ''five'')), refetch = refetch_callback, rawValue = Some 5\<rparr>"
    using useAppQuery_selector
      [where ToBoolean = "(\<lambda>d. d \<noteq> (0::nat))"
         and urql = "(\<lambda>a. \<lparr>data = Some (5::nat), fetching = False, error = (None :: string option)\<rparr>)"
         and props = "\<lparr>UseAppQueryProps.query = (), variables = (),
        selector = (\<lambda>d. if d = 5 then Inl (ErrorInstance ''five'')
                        else if d = 6 then Inl (OtherValue ()) else Inr (Suc d)),
        paused = None, requestPolicy = Some cache_first\<rparr>"
         and d = 5]
    by simp
  have g2: "outcome (useAppQuery (\<lambda>d. d \<noteq> (0::nat))
       (\<lambda>a. \<lparr>data = Some (6::nat), fetching = False, error = (None :: string option)\<rparr>)
       \<lparr>UseAppQueryProps.query = (), variables = (),
        selector = (\<lambda>d. if d = 5 then Inl (ErrorInstance ''five'')
                        else if d = 6 then Inl (OtherValue ()) else Inr (Suc d)),
        paused = None, requestPolicy = Some cache_first\<rparr>)
     = Inr \<lparr>result = ErrorResult (SelectorError None), refetch = refetch_callback, rawValue = Some 6\<rparr>"
    using useAppQuery_selector
      [where ToBoolean = "(\<lambda>d. d \<noteq> (0::nat))"
         and urql = "(\<lambda>a. \<lparr>data = Some (6::nat), fetching = False, error = (None :: string option)\<rparr>)"
         and props = "\<lparr>UseAppQueryProps.query = (), variables = (),
        selector = (\<lambda>d. if d = 5 then Inl (ErrorInstance ''five'')
                        else if d = 6 then Inl (OtherValue ()) else Inr (Suc d)),
        paused = None, requestPolicy = Some cache_first\<rparr>"
         and d = 6]
    by simp
  from g0 g1 g2 show ?thesis by blast
qed

text \<open>
  Without the added conditions the statement fails. With \<open>paused\<close> true the result is the
  paused one, although the client has data, reports no error, and the selector would
  return \<open>4\<close>. With the data \<open>0\<close> of a query whose data are a number, the result is the
  error result holding a \<open>NoDataError\<close>, although the selector would return \<open>1\<close>.
\<close>

theorem useAppQuery_selector_counterexample:
  "error ((\<lambda>a. \<lparr>data = Some (3::nat), fetching = False, error = (None :: string option)\<rparr>)
       (useQuery_args \<lparr>UseAppQueryProps.query = (), variables = (),
        selector = (\<lambda>d. Inr (Suc d) :: (string, unit) Thrown + nat),
        paused = Some True, requestPolicy = None\<rparr>))
     = None
   \<and> data ((\<lambda>a. \<lparr>data = Some (3::nat), fetching = False, error = (None :: string option)\<rparr>)
       (useQuery_args \<lparr>UseAppQueryProps.query = (), variables = (),
        selector = (\<lambda>d. Inr (Suc d) :: (string, unit) Thrown + nat),
        paused = Some True, requestPolicy = None\<rparr>))
     = Some 3
   \<and> UseAppQueryProps.selector \<lparr>UseAppQueryProps.query = (), variables = (),
        selector = (\<lambda>d. Inr (Suc d) :: (string, unit) Thrown + nat),
        paused = Some True, requestPolicy = None\<rparr> 3
     = Inr 4
   \<and> outcome (useAppQuery (\<lambda>d. d \<noteq> (0::nat))
       (\<lambda>a. \<lparr>data = Some (3::nat), fetching = False, error = (None :: string option)\<rparr>)
       \<lparr>UseAppQueryProps.query = (), variables = (),
        selector = (\<lambda>d. Inr (Suc d) :: (string, unit) Thrown + nat),
        paused = Some True, requestPolicy = None\<rparr>)
     = Inr \<lparr>result = PausedResult, refetch = refetch_callback, rawValue = Some 3\<rparr>
   \<and> error ((\<lambda>a. \<lparr>data = Some (0::nat), fetching = False, error = (None :: string option)\<rparr>)
       (useQuery_args \<lparr>UseAppQueryProps.query = (), variables = (),
        selector = (\<lambda>d. Inr (Suc d) :: (string, unit) Thrown + nat),
        paused = None, requestPolicy = None\<rparr>))
     = None
   \<and> data ((\<lambda>a. \<lparr>data = Some (0::nat), fetching = False, error = (None :: string option)\<rparr>)
       (useQuery_args \<lparr>UseAppQueryProps.query = (), variables = (),
        selector = (\<lambda>d. Inr (Suc d) :: (string, unit) Thrown + nat),
        paused = None, requestPolicy = None\<rparr>))
     = Some 0
   \<and> UseAppQueryProps.selector \<lparr>UseAppQueryProps.query = (), variables = (),
        selector = (\<lambda>d. Inr (Suc d) :: (string, unit) Thrown + nat),
        paused = None, requestPolicy = None\<rparr> 0
     = Inr 1
   \<and> outcome (useAppQuery (\<lambda>d. d \<noteq> (0::nat))
       (\<lambda>a. \<lparr>data = Some (0::nat), fetching = False, error = (None :: string option)\<rparr>)
       \<lparr>UseAppQueryProps.query = (), variables = (),
        selector = (\<lambda>d. Inr (Suc d) :: (string, unit) Thrown + nat),
        paused = None, requestPolicy = None\<rparr>)
     = Inr \<lparr>result = ErrorResult NoDataError, refetch = refetch_callback, rawValue = Some 0\<rparr>"
  by (simp add: useAppQuery_def resultWrapper_def)

section \<open>Properties of the retry hook\<close>

text \<open>
  The three ways through a render of the retry hook, after \<open>useAppQuery\<close> has returned:
  \<open>retryIf\<close> gives a verdict, or it throws.
\<close>

lemma useRetryableQuery_outcome:
  assumes "outcome (useAppQuery ToBoolean urql (useAppQuery_props input (retryCounts inst)))
             = Inr q"
    and "retryIf input (rawValue q) = Inr v"
  shows "outcome (useRetryableQuery ToBoolean urql input inst)
           = Inr (retry_return input (retryCounts inst) v q)"
  using assms by (simp add: useRetryableQuery_def Let_def)

lemma useRetryableQuery_committed:
  assumes "outcome (useAppQuery ToBoolean urql (useAppQuery_props input (retryCounts inst)))
             = Inr q"
    and "retryIf input (rawValue q) = Inr v"
  shows "committed (useRetryableQuery ToBoolean urql input inst)
           = useEffect inst (v, status (result q))
               (effect_callback input v q (retryCounts inst))"
  using assms by (simp add: useRetryableQuery_def Let_def)

lemma useRetryableQuery_throws:
  assumes "outcome (useAppQuery ToBoolean urql (useAppQuery_props input (retryCounts inst)))
             = Inr q"
    and "retryIf input (rawValue q) = Inl t"
  shows "outcome (useRetryableQuery ToBoolean urql input inst) = Inl t
       \<and> committed (useRetryableQuery ToBoolean urql input inst) = inst"
  using assms by (simp add: useRetryableQuery_def Let_def)

lemma useRetryableQuery_calls:
  "calls (useRetryableQuery ToBoolean urql input inst)
     = [useAppQuery_call (useAppQuery_props input (retryCounts inst)),
        useQuery_call (useQuery_args (useAppQuery_props input (retryCounts inst)))]"
  by (simp add: useRetryableQuery_def useAppQuery_calls Let_def split: sum.split)

text \<open>What the hook returns holds the raw data of the query it made.\<close>

lemma useRetryableQuery_rawValue:
  assumes "outcome (useRetryableQuery ToBoolean urql input inst) = Inr r"
  shows "rawValue r = data (urql (useQuery_args (useAppQuery_props input (retryCounts inst))))"
proof -
  obtain q where q:
    "outcome (useAppQuery ToBoolean urql (useAppQuery_props input (retryCounts inst))) = Inr q"
    using useAppQuery_Inr by blast
  show ?thesis
  proof (cases "retryIf input (rawValue q)")
    case (Inl t)
    then show ?thesis
      using useRetryableQuery_throws [OF q Inl] assms by simp
  next
    case (Inr v)
    have "rawValue (retry_return input (retryCounts inst) v q) = rawValue q"
      by (simp add: retry_return_def split: RetryIf.split bool.split)
    then show ?thesis
      using useRetryableQuery_outcome [OF q Inr] assms useAppQuery_fields [OF q] by simp
  qed
qed

text \<open>
  C3. On every render the hook's result follows this order, \<open>retryIf\<close> having given its
  verdict on the raw data: with the counter at or above \<open>maxRetryCount\<close> it is the error
  result "Max retry count exceeded", whatever the classifier returned and whatever the
  verdict; otherwise the verdict \<open>bail\<close> gives the error result "Bailed", \<open>true\<close> gives
  the retrying result with the counter, and \<open>false\<close> gives the classifier's result
  unchanged.
\<close>

theorem useRetryableQuery_priority:
  fixes urql :: "('q, 'v) UseQueryArgs \<Rightarrow> ('d, 'c) UseQueryState"
    and input :: "('q, 'v, 'd, 's, 'e, 'x) UseRetryableQueryProps"
  shows "\<exists>q. outcome (useAppQuery ToBoolean urql (useAppQuery_props input (retryCounts inst)))
            = Inr q
     \<and> rawValue q = data (urql (useQuery_args (useAppQuery_props input (retryCounts inst))))
     \<and> (int (retryCounts inst) \<ge> maxRetryCount input
          \<and> retryIf input (rawValue q) = Inr verdict \<longrightarrow>
          outcome (useRetryableQuery ToBoolean urql input inst)
            = Inr \<lparr>result = Query (ErrorResult (Error ''Max retry count exceeded'')),
                   refetch = refetch q, rawValue = rawValue q\<rparr>)
     \<and> (int (retryCounts inst) < maxRetryCount input
          \<and> retryIf input (rawValue q) = Inr bail \<longrightarrow>
          outcome (useRetryableQuery ToBoolean urql input inst)
            = Inr \<lparr>result = Query (ErrorResult (Error ''Bailed'')),
                   refetch = refetch q, rawValue = rawValue q\<rparr>)
     \<and> (int (retryCounts inst) < maxRetryCount input
          \<and> retryIf input (rawValue q) = Inr (Boolean True) \<longrightarrow>
          outcome (useRetryableQuery ToBoolean urql input inst)
            = Inr \<lparr>result = RetryingResult (retryCounts inst),
                   refetch = refetch q, rawValue = rawValue q\<rparr>)
     \<and> (int (retryCounts inst) < maxRetryCount input
          \<and> retryIf input (rawValue q) = Inr (Boolean False) \<longrightarrow>
          outcome (useRetryableQuery ToBoolean urql input inst)
            = Inr \<lparr>result = Query (result q),
                   refetch = refetch q, rawValue = rawValue q\<rparr>)"
proof -
  obtain q where q:
    "outcome (useAppQuery ToBoolean urql (useAppQuery_props input (retryCounts inst))) = Inr q"
    using useAppQuery_Inr by blast
  have r: "rawValue q
      = data (urql (useQuery_args (useAppQuery_props input (retryCounts inst))))"
    using useAppQuery_fields [OF q] by simp
  have o: "outcome (useRetryableQuery ToBoolean urql input inst)
      = Inr (retry_return input (retryCounts inst) v q)"
    if "retryIf input (rawValue q) = Inr v" for v
    using q that by (rule useRetryableQuery_outcome)
  have a: "int (retryCounts inst) \<ge> maxRetryCount input
          \<and> retryIf input (rawValue q) = Inr verdict \<longrightarrow>
          outcome (useRetryableQuery ToBoolean urql input inst)
            = Inr \<lparr>result = Query (ErrorResult (Error ''Max retry count exceeded'')),
                   refetch = refetch q, rawValue = rawValue q\<rparr>"
    using o [of verdict] by (simp add: retry_return_def)
  have b: "int (retryCounts inst) < maxRetryCount input
          \<and> retryIf input (rawValue q) = Inr bail \<longrightarrow>
          outcome (useRetryableQuery ToBoolean urql input inst)
            = Inr \<lparr>result = Query (ErrorResult (Error ''Bailed'')),
                   refetch = refetch q, rawValue = rawValue q\<rparr>"
    using o [of bail] by (simp add: retry_return_def)
  have c: "int (retryCounts inst) < maxRetryCount input
          \<and> retryIf input (rawValue q) = Inr (Boolean True) \<longrightarrow>
          outcome (useRetryableQuery ToBoolean urql input inst)
            = Inr \<lparr>result = RetryingResult (retryCounts inst),
                   refetch = refetch q, rawValue = rawValue q\<rparr>"
    using o [of "Boolean True"] by (simp add: retry_return_def)
  have d: "int (retryCounts inst) < maxRetryCount input
          \<and> retryIf input (rawValue q) = Inr (Boolean False) \<longrightarrow>
          outcome (useRetryableQuery ToBoolean urql input inst)
            = Inr \<lparr>result = Query (result q),
                   refetch = refetch q, rawValue = rawValue q\<rparr>"
    using o [of "Boolean False"] by (simp add: retry_return_def)
  from q r a b c d show ?thesis by blast
qed

theorem useRetryableQuery_priority_witness:
  "outcome (useRetryableQuery (\<lambda>d. d \<noteq> (0::nat))
       (\<lambda>a. \<lparr>data = Some (3::nat), fetching = False, error = (None :: string option)\<rparr>)
       \<lparr>UseRetryableQueryProps.query = (), variables = (), pause = None,
        selector = (\<lambda>d. Inr (Suc d) :: (string, unit) Thrown + nat),
        retryIf = (\<lambda>d. Inr (bail) :: (string, unit) Thrown + RetryIf),
        retryDelay = None, maxRetryCount = 0\<rparr>
       \<lparr>retryCounts = 0, deps = None,
         waiting = [],
         mounted = True\<rparr>)
     = Inr \<lparr>result = Query (ErrorResult (Error ''Max retry count exceeded'')), refetch = refetch_callback, rawValue = Some 3\<rparr>
   \<and> outcome (useRetryableQuery (\<lambda>d. d \<noteq> (0::nat))
       (\<lambda>a. \<lparr>data = Some (3::nat), fetching = False, error = (None :: string option)\<rparr>)
       \<lparr>UseRetryableQueryProps.query = (), variables = (), pause = None,
        selector = (\<lambda>d. Inr (Suc d) :: (string, unit) Thrown + nat),
        retryIf = (\<lambda>d. Inr (bail) :: (string, unit) Thrown + RetryIf),
        retryDelay = None, maxRetryCount = 2\<rparr>
       \<lparr>retryCounts = 0, deps = None,
         waiting = [],
         mounted = True\<rparr>)
     = Inr \<lparr>result = Query (ErrorResult (Error ''Bailed'')), refetch = refetch_callback, rawValue = Some 3\<rparr>
   \<and> outcome (useRetryableQuery (\<lambda>d. d \<noteq> (0::nat))
       (\<lambda>a. \<lparr>data = Some (3::nat), fetching = False, error = (None :: string option)\<rparr>)
       \<lparr>UseRetryableQueryProps.query = (), variables = (), pause = None,
        selector = (\<lambda>d. Inr (Suc d) :: (string, unit) Thrown + nat),
        retryIf = (\<lambda>d. Inr (Boolean True) :: (string, unit) Thrown + RetryIf),
        retryDelay = None, maxRetryCount = 2\<rparr>
       \<lparr>retryCounts = 1, deps = None,
         waiting = [],
         mounted = True\<rparr>)
     = Inr \<lparr>result = RetryingResult 1, refetch = refetch_callback, rawValue = Some 3\<rparr>
   \<and> outcome (useRetryableQuery (\<lambda>d. d \<noteq> (0::nat))
       (\<lambda>a. \<lparr>data = Some (3::nat), fetching = False, error = (None :: string option)\<rparr>)
       \<lparr>UseRetryableQueryProps.query = (), variables = (), pause = None,
        selector = (\<lambda>d. Inr (Suc d) :: (string, unit) Thrown + nat),
        retryIf = (\<lambda>d. Inr (Boolean False) :: (string, unit) Thrown + RetryIf),
        retryDelay = None, maxRetryCount = 2\<rparr>
       \<lparr>retryCounts = 0, deps = None,
         waiting = [],
         mounted = True\<rparr>)
     = Inr \<lparr>result = Query (SuccessResult 4), refetch = refetch_callback, rawValue = Some 3\<rparr>"
proof -
  have g0: "outcome (useRetryableQuery (\<lambda>d. d \<noteq> (0::nat))
       (\<lambda>a. \<lparr>data = Some (3::nat), fetching = False, error = (None :: string option)\<rparr>)
       \<lparr>UseRetryableQueryProps.query = (), variables = (), pause = None,
        selector = (\<lambda>d. Inr (Suc d) :: (string, unit) Thrown + nat),
        retryIf = (\<lambda>d. Inr (bail) :: (string, unit) Thrown + RetryIf),
        retryDelay = None, maxRetryCount = 0\<rparr>
       \<lparr>retryCounts = 0, deps = None,
         waiting = [],
         mounted = True\<rparr>)
     = Inr \<lparr>result = Query (ErrorResult (Error ''Max retry count exceeded'')), refetch = refetch_callback, rawValue = Some 3\<rparr>"
    using useRetryableQuery_priority
      [where ToBoolean = "(\<lambda>d. d \<noteq> (0::nat))"
         and urql = "(\<lambda>a. \<lparr>data = Some (3::nat), fetching = False, error = (None :: string option)\<rparr>)"
         and input = "\<lparr>UseRetryableQueryProps.query = (), variables = (), pause = None,
        selector = (\<lambda>d. Inr (Suc d) :: (string, unit) Thrown + nat),
        retryIf = (\<lambda>d. Inr (bail) :: (string, unit) Thrown + RetryIf),
        retryDelay = None, maxRetryCount = 0\<rparr>"
         and inst = "\<lparr>retryCounts = 0, deps = None,
         waiting = [],
         mounted = True\<rparr>"
         and verdict = "bail"]
    by (auto simp add: useAppQuery_def useAppQuery_props_def shouldPause_def
          resultWrapper_def)
  have g1: "outcome (useRetryableQuery (\<lambda>d. d \<noteq> (0::nat))
       (\<lambda>a. \<lparr>data = Some (3::nat), fetching = False, error = (None :: string option)\<rparr>)
       \<lparr>UseRetryableQueryProps.query = (), variables = (), pause = None,
        selector = (\<lambda>d. Inr (Suc d) :: (string, unit) Thrown + nat),
        retryIf = (\<lambda>d. Inr (bail) :: (string, unit) Thrown + RetryIf),
        retryDelay = None, maxRetryCount = 2\<rparr>
       \<lparr>retryCounts = 0, deps = None,
         waiting = [],
         mounted = True\<rparr>)
     = Inr \<lparr>result = Query (ErrorResult (Error ''Bailed'')), refetch = refetch_callback, rawValue = Some 3\<rparr>"
    using useRetryableQuery_priority
      [where ToBoolean = "(\<lambda>d. d \<noteq> (0::nat))"
         and urql = "(\<lambda>a. \<lparr>data = Some (3::nat), fetching = False, error = (None :: string option)\<rparr>)"
         and input = "\<lparr>UseRetryableQueryProps.query = (), variables = (), pause = None,
        selector = (\<lambda>d. Inr (Suc d) :: (string, unit) Thrown + nat),
        retryIf = (\<lambda>d. Inr (bail) :: (string, unit) Thrown + RetryIf),
        retryDelay = None, maxRetryCount = 2\<rparr>"
         and inst = "\<lparr>retryCounts = 0, deps = None,
         waiting = [],
         mounted = True\<rparr>"
         and verdict = "bail"]
    by (auto simp add: useAppQuery_def useAppQuery_props_def shouldPause_def
          resultWrapper_def)
  have g2: "outcome (useRetryableQuery (\<lambda>d. d \<noteq> (0::nat))
       (\<lambda>a. \<lparr>data = Some (3::nat), fetching = False, error = (None :: string option)\<rparr>)
       \<lparr>UseRetryableQueryProps.query = (), variables = (), pause = None,
        selector = (\<lambda>d. Inr (Suc d) :: (string, unit) Thrown + nat),
        retryIf = (\<lambda>d. Inr (Boolean True) :: (string, unit) Thrown + RetryIf),
        retryDelay = None, maxRetryCount = 2\<rparr>
       \<lparr>retryCounts = 1, deps = None,
         waiting = [],
         mounted = True\<rparr>)
     = Inr \<lparr>result = RetryingResult 1, refetch = refetch_callback, rawValue = Some 3\<rparr>"
    using useRetryableQuery_priority
      [where ToBoolean = "(\<lambda>d. d \<noteq> (0::nat))"
         and urql = "(\<lambda>a. \<lparr>data = Some (3::nat), fetching = False, error = (None :: string option)\<rparr>)"
         and input = "\<lparr>UseRetryableQueryProps.query = (), variables = (), pause = None,
        selector = (\<lambda>d. Inr (Suc d) :: (string, unit) Thrown + nat),
        retryIf = (\<lambda>d. Inr (Boolean True) :: (string, unit) Thrown + RetryIf),
        retryDelay = None, maxRetryCount = 2\<rparr>"
         and inst = "\<lparr>retryCounts = 1, deps = None,
         waiting = [],
         mounted = True\<rparr>"
         and verdict = "Boolean True"]
    by (auto simp add: useAppQuery_def useAppQuery_props_def shouldPause_def
          resultWrapper_def)
  have g3: "outcome (useRetryableQuery (\<lambda>d. d \<noteq> (0::nat))
       (\<lambda>a. \<lparr>data = Some (3::nat), fetching = False, error = (None :: string option)\<rparr>)
       \<lparr>UseRetryableQueryProps.query = (), variables = (), pause = None,
        selector = (\<lambda>d. Inr (Suc d) :: (string, unit) Thrown + nat),
        retryIf = (\<lambda>d. Inr (Boolean False) :: (string, unit) Thrown + RetryIf),
        retryDelay = None, maxRetryCount = 2\<rparr>
       \<lparr>retryCounts = 0, deps = None,
         waiting = [],
         mounted = True\<rparr>)
     = Inr \<lparr>result = Query (SuccessResult 4), refetch = refetch_callback, rawValue = Some 3\<rparr>"
    using useRetryableQuery_priority
      [where ToBoolean = "(\<lambda>d. d \<noteq> (0::nat))"
         and urql = "(\<lambda>a. \<lparr>data = Some (3::nat), fetching = False, error = (None :: string option)\<rparr>)"
         and input = "\<lparr>UseRetryableQueryProps.query = (), variables = (), pause = None,
        selector = (\<lambda>d. Inr (Suc d) :: (string, unit) Thrown + nat),
        retryIf = (\<lambda>d. Inr (Boolean False) :: (string, unit) Thrown + RetryIf),
        retryDelay = None, maxRetryCount = 2\<rparr>"
         and inst = "\<lparr>retryCounts = 0, deps = None,
         waiting = [],
         mounted = True\<rparr>"
         and verdict = "Boolean False"]
    by (auto simp add: useAppQuery_def useAppQuery_props_def shouldPause_def
          resultWrapper_def)
  from g0 g1 g2 g3 show ?thesis by blast
qed

text \<open>
  C4, amended. A render adds at most one deferred retry, and it adds one exactly when React
  runs the effect (on the first render, and on a render whose pair of \<open>retryIf\<close> verdict and
  classified status differs from that of the previous render) and all three hold: the
  verdict of \<open>retryIf\<close> on the raw data is \<open>true\<close>, the classified status is fetching, and
  the counter \<open>n\<close> is below \<open>maxRetryCount\<close>. Its delay is \<open>retryDelay (n + 1)\<close>, or
  \<open>(n + 1) * 1000\<close> without a \<open>retryDelay\<close>. The render leaves the counter as it is. When
  the retry fires with the counter still below \<open>maxRetryCount\<close>, it adds one to the counter
  and calls the client's execute function with the request policy network-only.
\<close>

theorem useRetryableQuery_schedule:
  fixes urql :: "('q, 'v) UseQueryArgs \<Rightarrow> ('d, 'c) UseQueryState"
    and input :: "('q, 'v, 'd, 's, 'e, 'x) UseRetryableQueryProps"
  shows "\<exists>q. outcome (useAppQuery ToBoolean urql (useAppQuery_props input (retryCounts inst)))
            = Inr q
     \<and> retryCounts (committed (useRetryableQuery ToBoolean urql input inst))
         = retryCounts inst
     \<and> waiting (committed (useRetryableQuery ToBoolean urql input inst))
         = waiting inst @
           (if retryIf input (rawValue q) = Inr (Boolean True)
               \<and> deps inst \<noteq> Some (Boolean True, ''fetching'')
               \<and> status (result q) = ''fetching''
               \<and> int (retryCounts inst) < maxRetryCount input
            then [\<lparr>delay = (case retryDelay input of
                               Some f \<Rightarrow> f (retryCounts inst + 1)
                             | None \<Rightarrow> (int (retryCounts inst) + 1) * 1000),
                   captured_maxRetryCount = maxRetryCount input,
                   captured_refetch = refetch_callback\<rparr>]
            else [])
     \<and> (\<forall>d inst'. int (retryCounts inst') < maxRetryCount input \<longrightarrow>
            then_callback \<lparr>delay = d, captured_maxRetryCount = maxRetryCount input,
                           captured_refetch = refetch_callback\<rparr> inst'
              = (inst'\<lparr>retryCounts := retryCounts inst' + 1\<rparr>,
                 [executeQuery \<lparr>OperationContext.requestPolicy = Some network_only,
                                suspense = None\<rparr>]))"
proof -
  obtain q where q:
    "outcome (useAppQuery ToBoolean urql (useAppQuery_props input (retryCounts inst))) = Inr q"
    using useAppQuery_Inr by blast
  have r: "refetch q = refetch_callback"
    using useAppQuery_fields [OF q] by simp
  have cw: "retryCounts (committed (useRetryableQuery ToBoolean urql input inst))
         = retryCounts inst
     \<and> waiting (committed (useRetryableQuery ToBoolean urql input inst))
         = waiting inst @
           (if retryIf input (rawValue q) = Inr (Boolean True)
               \<and> deps inst \<noteq> Some (Boolean True, ''fetching'')
               \<and> status (result q) = ''fetching''
               \<and> int (retryCounts inst) < maxRetryCount input
            then [\<lparr>delay = (case retryDelay input of
                               Some f \<Rightarrow> f (retryCounts inst + 1)
                             | None \<Rightarrow> (int (retryCounts inst) + 1) * 1000),
                   captured_maxRetryCount = maxRetryCount input,
                   captured_refetch = refetch_callback\<rparr>]
            else [])"
  proof (cases "retryIf input (rawValue q)")
    case (Inl t)
    then show ?thesis
      using useRetryableQuery_throws [OF q Inl] by simp
  next
    case (Inr v)
    show ?thesis
      unfolding useRetryableQuery_committed [OF q Inr] Inr
      by (auto simp add: useEffect_def effect_callback_def Let_def r split: option.split)
  qed
  have f: "(\<forall>d inst'. int (retryCounts inst') < maxRetryCount input \<longrightarrow>
            then_callback \<lparr>delay = d, captured_maxRetryCount = maxRetryCount input,
                           captured_refetch = refetch_callback\<rparr> inst'
              = (inst'\<lparr>retryCounts := retryCounts inst' + 1\<rparr>,
                 [executeQuery \<lparr>OperationContext.requestPolicy = Some network_only,
                                suspense = None\<rparr>]))"
    by (simp add: then_callback_def refetch_callback_def)
  from q cw f show ?thesis by blast
qed

theorem useRetryableQuery_schedule_witness:
  "waiting (committed (useRetryableQuery (\<lambda>d. d \<noteq> (0::nat))
       (\<lambda>a. \<lparr>data = (None :: nat option), fetching = True, error = (None :: string option)\<rparr>)
       \<lparr>UseRetryableQueryProps.query = (), variables = (), pause = None,
        selector = (\<lambda>d. Inr (Suc d) :: (string, unit) Thrown + nat),
        retryIf = (\<lambda>d. Inr (Boolean (d = None)) :: (string, unit) Thrown + RetryIf),
        retryDelay = None, maxRetryCount = 2\<rparr>
       \<lparr>retryCounts = 0, deps = None,
         waiting = [],
         mounted = True\<rparr>))
     = [\<lparr>delay = 1000, captured_maxRetryCount = 2, captured_refetch = refetch_callback\<rparr>]
   \<and> then_callback \<lparr>delay = 1000, captured_maxRetryCount = 2, captured_refetch = refetch_callback\<rparr>
       \<lparr>retryCounts = 0, deps = None,
         waiting = [],
         mounted = True\<rparr>
     = (\<lparr>retryCounts = 1, deps = None,
         waiting = [],
         mounted = True\<rparr>,
        [executeQuery \<lparr>OperationContext.requestPolicy = Some network_only, suspense = None\<rparr>])
   \<and> waiting (committed (useRetryableQuery (\<lambda>d. d \<noteq> (0::nat))
       (\<lambda>a. \<lparr>data = (None :: nat option), fetching = True, error = (None :: string option)\<rparr>)
       \<lparr>UseRetryableQueryProps.query = (), variables = (), pause = None,
        selector = (\<lambda>d. Inr (Suc d) :: (string, unit) Thrown + nat),
        retryIf = (\<lambda>d. Inr (Boolean (d = None)) :: (string, unit) Thrown + RetryIf),
        retryDelay = Some (\<lambda>k. 50 * int k), maxRetryCount = 2\<rparr>
       \<lparr>retryCounts = 1, deps = None,
         waiting = [],
         mounted = True\<rparr>))
     = [\<lparr>delay = 100, captured_maxRetryCount = 2, captured_refetch = refetch_callback\<rparr>]
   \<and> then_callback \<lparr>delay = 100, captured_maxRetryCount = 2, captured_refetch = refetch_callback\<rparr>
       \<lparr>retryCounts = 1, deps = None,
         waiting = [],
         mounted = True\<rparr>
     = (\<lparr>retryCounts = 2, deps = None,
         waiting = [],
         mounted = True\<rparr>,
        [executeQuery \<lparr>OperationContext.requestPolicy = Some network_only, suspense = None\<rparr>])"
proof -
  have g0: "waiting (committed (useRetryableQuery (\<lambda>d. d \<noteq> (0::nat))
       (\<lambda>a. \<lparr>data = (None :: nat option), fetching = True, error = (None :: string option)\<rparr>)
       \<lparr>UseRetryableQueryProps.query = (), variables = (), pause = None,
        selector = (\<lambda>d. Inr (Suc d) :: (string, unit) Thrown + nat),
        retryIf = (\<lambda>d. Inr (Boolean (d = None)) :: (string, unit) Thrown + RetryIf),
        retryDelay = None, maxRetryCount = 2\<rparr>
       \<lparr>retryCounts = 0, deps = None,
         waiting = [],
         mounted = True\<rparr>))
     = [\<lparr>delay = 1000, captured_maxRetryCount = 2, captured_refetch = refetch_callback\<rparr>]
   \<and> then_callback \<lparr>delay = 1000, captured_maxRetryCount = 2, captured_refetch = refetch_callback\<rparr>
       \<lparr>retryCounts = 0, deps = None,
         waiting = [],
         mounted = True\<rparr>
     = (\<lparr>retryCounts = 1, deps = None,
         waiting = [],
         mounted = True\<rparr>,
        [executeQuery \<lparr>OperationContext.requestPolicy = Some network_only, suspense = None\<rparr>])"
    using useRetryableQuery_schedule
      [where ToBoolean = "(\<lambda>d. d \<noteq> (0::nat))"
         and urql = "(\<lambda>a. \<lparr>data = (None :: nat option), fetching = True, error = (None :: string option)\<rparr>)"
         and input = "\<lparr>UseRetryableQueryProps.query = (), variables = (), pause = None,
        selector = (\<lambda>d. Inr (Suc d) :: (string, unit) Thrown + nat),
        retryIf = (\<lambda>d. Inr (Boolean (d = None)) :: (string, unit) Thrown + RetryIf),
        retryDelay = None, maxRetryCount = 2\<rparr>"
         and inst = "\<lparr>retryCounts = 0, deps = None,
         waiting = [],
         mounted = True\<rparr>"]
    by (auto simp add: useAppQuery_def useAppQuery_props_def shouldPause_def
          resultWrapper_def)
  have g1: "waiting (committed (useRetryableQuery (\<lambda>d. d \<noteq> (0::nat))
       (\<lambda>a. \<lparr>data = (None :: nat option), fetching = True, error = (None :: string option)\<rparr>)
       \<lparr>UseRetryableQueryProps.query = (), variables = (), pause = None,
        selector = (\<lambda>d. Inr (Suc d) :: (string, unit) Thrown + nat),
        retryIf = (\<lambda>d. Inr (Boolean (d = None)) :: (string, unit) Thrown + RetryIf),
        retryDelay = Some (\<lambda>k. 50 * int k), maxRetryCount = 2\<rparr>
       \<lparr>retryCounts = 1, deps = None,
         waiting = [],
         mounted = True\<rparr>))
     = [\<lparr>delay = 100, captured_maxRetryCount = 2, captured_refetch = refetch_callback\<rparr>]
   \<and> then_callback \<lparr>delay = 100, captured_maxRetryCount = 2, captured_refetch = refetch_callback\<rparr>
       \<lparr>retryCounts = 1, deps = None,
         waiting = [],
         mounted = True\<rparr>
     = (\<lparr>retryCounts = 2, deps = None,
         waiting = [],
         mounted = True\<rparr>,
        [executeQuery \<lparr>OperationContext.requestPolicy = Some network_only, suspense = None\<rparr>])"
    using useRetryableQuery_schedule
      [where ToBoolean = "(\<lambda>d. d \<noteq> (0::nat))"
         and urql = "(\<lambda>a. \<lparr>data = (None :: nat option), fetching = True, error = (None :: string option)\<rparr>)"
         and input = "\<lparr>UseRetryableQueryProps.query = (), variables = (), pause = None,
        selector = (\<lambda>d. Inr (Suc d) :: (string, unit) Thrown + nat),
        retryIf = (\<lambda>d. Inr (Boolean (d = None)) :: (string, unit) Thrown + RetryIf),
        retryDelay = Some (\<lambda>k. 50 * int k), maxRetryCount = 2\<rparr>"
         and inst = "\<lparr>retryCounts = 1, deps = None,
         waiting = [],
         mounted = True\<rparr>"]
    by (auto simp add: useAppQuery_def useAppQuery_props_def shouldPause_def
          resultWrapper_def)
  from g0 g1 show ?thesis by blast
qed

text \<open>
  All three conditions alone do not schedule a retry. The client is fetching, \<open>retryIf\<close> says
  \<open>true\<close> and the counter is \<open>0\<close> of \<open>2\<close>. The first render schedules a retry. A second
  render in the same situation (the component re-renders while the fetch is under way)
  finds the dependency array unchanged, and schedules nothing.
\<close>

theorem useRetryableQuery_schedule_counterexample:
  "committed (useRetryableQuery (\<lambda>d. d \<noteq> (0::nat))
       (\<lambda>a. \<lparr>data = (None :: nat option), fetching = True, error = (None :: string option)\<rparr>)
       \<lparr>UseRetryableQueryProps.query = (), variables = (), pause = None,
        selector = (\<lambda>d. Inr (Suc d) :: (string, unit) Thrown + nat),
        retryIf = (\<lambda>d. Inr (Boolean (d = None)) :: (string, unit) Thrown + RetryIf),
        retryDelay = None, maxRetryCount = 2\<rparr>
       mount)
     = \<lparr>retryCounts = 0, deps = Some (Boolean True, ''fetching''),
         waiting = [\<lparr>delay = 1000, captured_maxRetryCount = 2, captured_refetch = refetch_callback\<rparr>],
         mounted = True\<rparr>
   \<and> retryIf \<lparr>UseRetryableQueryProps.query = (), variables = (), pause = None,
        selector = (\<lambda>d. Inr (Suc d) :: (string, unit) Thrown + nat),
        retryIf = (\<lambda>d. Inr (Boolean (d = None)) :: (string, unit) Thrown + RetryIf),
        retryDelay = None, maxRetryCount = 2\<rparr>
       (data ((\<lambda>a. \<lparr>data = (None :: nat option), fetching = True, error = (None :: string option)\<rparr>)
          (useQuery_args (useAppQuery_props \<lparr>UseRetryableQueryProps.query = (), variables = (), pause = None,
        selector = (\<lambda>d. Inr (Suc d) :: (string, unit) Thrown + nat),
        retryIf = (\<lambda>d. Inr (Boolean (d = None)) :: (string, unit) Thrown + RetryIf),
        retryDelay = None, maxRetryCount = 2\<rparr> 0))))
     = Inr (Boolean True)
   \<and> outcome (useAppQuery (\<lambda>d. d \<noteq> (0::nat))
       (\<lambda>a. \<lparr>data = (None :: nat option), fetching = True, error = (None :: string option)\<rparr>)
       (useAppQuery_props \<lparr>UseRetryableQueryProps.query = (), variables = (), pause = None,
        selector = (\<lambda>d. Inr (Suc d) :: (string, unit) Thrown + nat),
        retryIf = (\<lambda>d. Inr (Boolean (d = None)) :: (string, unit) Thrown + RetryIf),
        retryDelay = None, maxRetryCount = 2\<rparr> 0))
     = Inr \<lparr>result = FetchingResult, refetch = refetch_callback, rawValue = None\<rparr>
   \<and> int 0 < maxRetryCount \<lparr>UseRetryableQueryProps.query = (), variables = (), pause = None,
        selector = (\<lambda>d. Inr (Suc d) :: (string, unit) Thrown + nat),
        retryIf = (\<lambda>d. Inr (Boolean (d = None)) :: (string, unit) Thrown + RetryIf),
        retryDelay = None, maxRetryCount = 2\<rparr>
   \<and> waiting (committed (useRetryableQuery (\<lambda>d. d \<noteq> (0::nat))
       (\<lambda>a. \<lparr>data = (None :: nat option), fetching = True, error = (None :: string option)\<rparr>)
       \<lparr>UseRetryableQueryProps.query = (), variables = (), pause = None,
        selector = (\<lambda>d. Inr (Suc d) :: (string, unit) Thrown + nat),
        retryIf = (\<lambda>d. Inr (Boolean (d = None)) :: (string, unit) Thrown + RetryIf),
        retryDelay = None, maxRetryCount = 2\<rparr>
       \<lparr>retryCounts = 0, deps = Some (Boolean True, ''fetching''),
         waiting = [\<lparr>delay = 1000, captured_maxRetryCount = 2, captured_refetch = refetch_callback\<rparr>],
         mounted = True\<rparr>))
     = [\<lparr>delay = 1000, captured_maxRetryCount = 2, captured_refetch = refetch_callback\<rparr>]"
  by (simp add: useRetryableQuery_def useAppQuery_def useAppQuery_props_def shouldPause_def
      resultWrapper_def mount_def useEffect_def effect_callback_def Let_def)

text \<open>
  C5, amended. When a deferred retry fires with the retry budget exhausted (the counter at
  or above the \<open>maxRetryCount\<close> it captured), it does nothing: the counter stays and no
  client call is made. With budget left it adds one to the counter and runs the captured
  \<open>refetch\<close>. Unmounting does not enter into it: the hook registers no cleanup and the
  continuation tests the counter only, so it does on an unmounted instance what it does on
  a mounted one.
\<close>

theorem fire_revalidates:
  assumes "i < length (waiting inst)"
  shows "(int (retryCounts inst) \<ge> captured_maxRetryCount (waiting inst ! i) \<longrightarrow>
            fire i inst
              = (inst\<lparr>waiting := take i (waiting inst) @ drop (Suc i) (waiting inst)\<rparr>, []))
       \<and> (int (retryCounts inst) < captured_maxRetryCount (waiting inst ! i) \<longrightarrow>
            fire i inst
              = (inst\<lparr>waiting := take i (waiting inst) @ drop (Suc i) (waiting inst),
                       retryCounts := retryCounts inst + 1\<rparr>,
                 captured_refetch (waiting inst ! i)))
       \<and> fire i (unmount inst) = (unmount (fst (fire i inst)), snd (fire i inst))"
  using assms by (simp add: fire_def then_callback_def unmount_def)

theorem fire_revalidates_witness:
  "fire 0 \<lparr>retryCounts = 2, deps = Some (Boolean True, ''fetching''),
         waiting = [\<lparr>delay = 1000, captured_maxRetryCount = 2, captured_refetch = refetch_callback\<rparr>],
         mounted = True\<rparr>
     = (\<lparr>retryCounts = 2, deps = Some (Boolean True, ''fetching''),
         waiting = [],
         mounted = True\<rparr>,
        [])
   \<and> fire 0 \<lparr>retryCounts = 1, deps = Some (Boolean True, ''fetching''),
         waiting = [\<lparr>delay = 1000, captured_maxRetryCount = 2, captured_refetch = refetch_callback\<rparr>],
         mounted = True\<rparr>
     = (\<lparr>retryCounts = 2, deps = Some (Boolean True, ''fetching''),
         waiting = [],
         mounted = True\<rparr>,
        refetch_callback)"
proof -
  have g0: "fire 0 \<lparr>retryCounts = 2, deps = Some (Boolean True, ''fetching''),
         waiting = [\<lparr>delay = 1000, captured_maxRetryCount = 2, captured_refetch = refetch_callback\<rparr>],
         mounted = True\<rparr>
     = (\<lparr>retryCounts = 2, deps = Some (Boolean True, ''fetching''),
         waiting = [],
         mounted = True\<rparr>,
        [])"
    using fire_revalidates
      [where inst = "\<lparr>retryCounts = 2, deps = Some (Boolean True, ''fetching''),
         waiting = [\<lparr>delay = 1000, captured_maxRetryCount = 2, captured_refetch = refetch_callback\<rparr>],
         mounted = True\<rparr>"
         and i = 0]
    by simp
  have g1: "fire 0 \<lparr>retryCounts = 1, deps = Some (Boolean True, ''fetching''),
         waiting = [\<lparr>delay = 1000, captured_maxRetryCount = 2, captured_refetch = refetch_callback\<rparr>],
         mounted = True\<rparr>
     = (\<lparr>retryCounts = 2, deps = Some (Boolean True, ''fetching''),
         waiting = [],
         mounted = True\<rparr>,
        refetch_callback)"
    using fire_revalidates
      [where inst = "\<lparr>retryCounts = 1, deps = Some (Boolean True, ''fetching''),
         waiting = [\<lparr>delay = 1000, captured_maxRetryCount = 2, captured_refetch = refetch_callback\<rparr>],
         mounted = True\<rparr>"
         and i = 0]
    by simp
  from g0 g1 show ?thesis by blast
qed

text \<open>
  The retry scheduled by the first render fires after the instance was unmounted: the
  counter goes from \<open>0\<close> to \<open>1\<close> and the client is asked to fetch again.
\<close>

theorem fire_revalidates_counterexample:
  "unmount (committed (useRetryableQuery (\<lambda>d. d \<noteq> (0::nat))
       (\<lambda>a. \<lparr>data = (None :: nat option), fetching = True, error = (None :: string option)\<rparr>)
       \<lparr>UseRetryableQueryProps.query = (), variables = (), pause = None,
        selector = (\<lambda>d. Inr (Suc d) :: (string, unit) Thrown + nat),
        retryIf = (\<lambda>d. Inr (Boolean (d = None)) :: (string, unit) Thrown + RetryIf),
        retryDelay = None, maxRetryCount = 2\<rparr>
       mount))
     = \<lparr>retryCounts = 0, deps = Some (Boolean True, ''fetching''),
         waiting = [\<lparr>delay = 1000, captured_maxRetryCount = 2, captured_refetch = refetch_callback\<rparr>],
         mounted = False\<rparr>
   \<and> mounted \<lparr>retryCounts = 0, deps = Some (Boolean True, ''fetching''),
         waiting = [\<lparr>delay = 1000, captured_maxRetryCount = 2, captured_refetch = refetch_callback\<rparr>],
         mounted = False\<rparr> = False
   \<and> fire 0 \<lparr>retryCounts = 0, deps = Some (Boolean True, ''fetching''),
         waiting = [\<lparr>delay = 1000, captured_maxRetryCount = 2, captured_refetch = refetch_callback\<rparr>],
         mounted = False\<rparr>
     = (\<lparr>retryCounts = 1, deps = Some (Boolean True, ''fetching''),
         waiting = [],
         mounted = False\<rparr>,
        [executeQuery \<lparr>OperationContext.requestPolicy = Some network_only, suspense = None\<rparr>])"
  by (simp add: useRetryableQuery_def useAppQuery_def useAppQuery_props_def shouldPause_def
      resultWrapper_def mount_def unmount_def useEffect_def effect_callback_def fire_def
      then_callback_def refetch_callback_def Let_def)

text \<open>
  C6. In every render the retry hook calls the classifier once and, through it, urql's
  \<open>useQuery\<close> once; that query is paused exactly when the caller asks for a pause or the
  counter has reached \<open>maxRetryCount\<close>, and its answer is the one the hook works with.
\<close>

theorem useRetryableQuery_pause:
  fixes urql :: "('q, 'v) UseQueryArgs \<Rightarrow> ('d, 'c) UseQueryState"
    and input :: "('q, 'v, 'd, 's, 'e, 'x) UseRetryableQueryProps"
  shows "calls (useRetryableQuery ToBoolean urql input inst)
           = [useAppQuery_call (useAppQuery_props input (retryCounts inst)),
              useQuery_call
                \<lparr>UseQueryArgs.query = UseRetryableQueryProps.query input,
              UseQueryArgs.variables = UseRetryableQueryProps.variables input,
              pause = Some (UseRetryableQueryProps.pause input = Some True
                             \<or> int (retryCounts inst) \<ge> maxRetryCount input),
              context_arg = \<lparr>OperationContext.requestPolicy = Some network_only,
                             suspense = Some False\<rparr>\<rparr>]
       \<and> paused (useAppQuery_props input (retryCounts inst))
           = Some (UseRetryableQueryProps.pause input = Some True
                             \<or> int (retryCounts inst) \<ge> maxRetryCount input)
       \<and> (\<forall>r. outcome (useRetryableQuery ToBoolean urql input inst) = Inr r \<longrightarrow>
              rawValue r = data (urql
                \<lparr>UseQueryArgs.query = UseRetryableQueryProps.query input,
              UseQueryArgs.variables = UseRetryableQueryProps.variables input,
              pause = Some (UseRetryableQueryProps.pause input = Some True
                             \<or> int (retryCounts inst) \<ge> maxRetryCount input),
              context_arg = \<lparr>OperationContext.requestPolicy = Some network_only,
                             suspense = Some False\<rparr>\<rparr>))"
proof -
  have a: "useQuery_args (useAppQuery_props input (retryCounts inst))
      = \<lparr>UseQueryArgs.query = UseRetryableQueryProps.query input,
              UseQueryArgs.variables = UseRetryableQueryProps.variables input,
              pause = Some (UseRetryableQueryProps.pause input = Some True
                             \<or> int (retryCounts inst) \<ge> maxRetryCount input),
              context_arg = \<lparr>OperationContext.requestPolicy = Some network_only,
                             suspense = Some False\<rparr>\<rparr>"
    by (simp add: useQuery_args_def useAppQuery_props_def shouldPause_def truthy_iff)
  have p: "paused (useAppQuery_props input (retryCounts inst))
           = Some (UseRetryableQueryProps.pause input = Some True
                             \<or> int (retryCounts inst) \<ge> maxRetryCount input)"
    by (simp add: useAppQuery_props_def shouldPause_def truthy_iff)
  have r: "rawValue r
      = data (urql (useQuery_args (useAppQuery_props input (retryCounts inst))))"
    if "outcome (useRetryableQuery ToBoolean urql input inst) = Inr r" for r
    using that by (rule useRetryableQuery_rawValue)
  show ?thesis
    using useRetryableQuery_calls [of ToBoolean urql input inst] p r
    unfolding a by blast
qed

theorem useRetryableQuery_pause_witness:
  "calls (useRetryableQuery (\<lambda>d. d \<noteq> (0::nat))
       (\<lambda>a. \<lparr>data = (None :: nat option), fetching = True, error = (None :: string option)\<rparr>)
       \<lparr>UseRetryableQueryProps.query = (), variables = (), pause = None,
        selector = (\<lambda>d. Inr (Suc d) :: (string, unit) Thrown + nat),
        retryIf = (\<lambda>d. Inr (Boolean (d = None)) :: (string, unit) Thrown + RetryIf),
        retryDelay = None, maxRetryCount = 2\<rparr>
       \<lparr>retryCounts = 0, deps = None,
         waiting = [],
         mounted = True\<rparr>)
     = [useAppQuery_call
         (useAppQuery_props \<lparr>UseRetryableQueryProps.query = (), variables = (), pause = None,
        selector = (\<lambda>d. Inr (Suc d) :: (string, unit) Thrown + nat),
        retryIf = (\<lambda>d. Inr (Boolean (d = None)) :: (string, unit) Thrown + RetryIf),
        retryDelay = None, maxRetryCount = 2\<rparr> 0),
        useQuery_call
          \<lparr>UseQueryArgs.query = (), variables = (), pause = Some False,
              context_arg = \<lparr>OperationContext.requestPolicy = Some network_only,
                             suspense = Some False\<rparr>\<rparr>]
   \<and> calls (useRetryableQuery (\<lambda>d. d \<noteq> (0::nat))
       (\<lambda>a. \<lparr>data = (None :: nat option), fetching = True, error = (None :: string option)\<rparr>)
       \<lparr>UseRetryableQueryProps.query = (), variables = (), pause = Some True,
        selector = (\<lambda>d. Inr (Suc d) :: (string, unit) Thrown + nat),
        retryIf = (\<lambda>d. Inr (Boolean (d = None)) :: (string, unit) Thrown + RetryIf),
        retryDelay = None, maxRetryCount = 2\<rparr>
       \<lparr>retryCounts = 0, deps = None,
         waiting = [],
         mounted = True\<rparr>)
     = [useAppQuery_call
         (useAppQuery_props \<lparr>UseRetryableQueryProps.query = (), variables = (), pause = Some True,
        selector = (\<lambda>d. Inr (Suc d) :: (string, unit) Thrown + nat),
        retryIf = (\<lambda>d. Inr (Boolean (d = None)) :: (string, unit) Thrown + RetryIf),
        retryDelay = None, maxRetryCount = 2\<rparr> 0),
        useQuery_call
          \<lparr>UseQueryArgs.query = (), variables = (), pause = Some True,
              context_arg = \<lparr>OperationContext.requestPolicy = Some network_only,
                             suspense = Some False\<rparr>\<rparr>]
   \<and> calls (useRetryableQuery (\<lambda>d. d \<noteq> (0::nat))
       (\<lambda>a. \<lparr>data = (None :: nat option), fetching = True, error = (None :: string option)\<rparr>)
       \<lparr>UseRetryableQueryProps.query = (), variables = (), pause = Some False,
        selector = (\<lambda>d. Inr (Suc d) :: (string, unit) Thrown + nat),
        retryIf = (\<lambda>d. Inr (Boolean (d = None)) :: (string, unit) Thrown + RetryIf),
        retryDelay = None, maxRetryCount = 2\<rparr>
       \<lparr>retryCounts = 2, deps = None,
         waiting = [],
         mounted = True\<rparr>)
     = [useAppQuery_call
         (useAppQuery_props \<lparr>UseRetryableQueryProps.query = (), variables = (), pause = Some False,
        selector = (\<lambda>d. Inr (Suc d) :: (string, unit) Thrown + nat),
        retryIf = (\<lambda>d. Inr (Boolean (d = None)) :: (string, unit) Thrown + RetryIf),
        retryDelay = None, maxRetryCount = 2\<rparr> 2),
        useQuery_call
          \<lparr>UseQueryArgs.query = (), variables = (), pause = Some True,
              context_arg = \<lparr>OperationContext.requestPolicy = Some network_only,
                             suspense = Some False\<rparr>\<rparr>]
   \<and> outcome (useRetryableQuery (\<lambda>d. d \<noteq> (0::nat))
       (\<lambda>a. \<lparr>data = (None :: nat option), fetching = True, error = (None :: string option)\<rparr>)
       \<lparr>UseRetryableQueryProps.query = (), variables = (), pause = None,
        selector = (\<lambda>d. Inr (Suc d) :: (string, unit) Thrown + nat),
        retryIf = (\<lambda>d. Inr (Boolean (d = None)) :: (string, unit) Thrown + RetryIf),
        retryDelay = None, maxRetryCount = 2\<rparr>
       \<lparr>retryCounts = 0, deps = None,
         waiting = [],
         mounted = True\<rparr>)
     = Inr \<lparr>result = RetryingResult 0, refetch = refetch_callback, rawValue = None\<rparr>
   \<and> rawValue \<lparr>result = RetryingResult 0, refetch = refetch_callback, rawValue = None\<rparr>
     = data ((\<lambda>a. \<lparr>data = (None :: nat option), fetching = True, error = (None :: string option)\<rparr>)
          \<lparr>UseQueryArgs.query = (), variables = (), pause = Some False,
              context_arg = \<lparr>OperationContext.requestPolicy = Some network_only,
                             suspense = Some False\<rparr>\<rparr>)"
proof -
  have g0: "calls (useRetryableQuery (\<lambda>d. d \<noteq> (0::nat))
       (\<lambda>a. \<lparr>data = (None :: nat option), fetching = True, error = (None :: string option)\<rparr>)
       \<lparr>UseRetryableQueryProps.query = (), variables = (), pause = None,
        selector = (\<lambda>d. Inr (Suc d) :: (string, unit) Thrown + nat),
        retryIf = (\<lambda>d. Inr (Boolean (d = None)) :: (string, unit) Thrown + RetryIf),
        retryDelay = None, maxRetryCount = 2\<rparr>
       \<lparr>retryCounts = 0, deps = None,
         waiting = [],
         mounted = True\<rparr>)
     = [useAppQuery_call
         (useAppQuery_props \<lparr>UseRetryableQueryProps.query = (), variables = (), pause = None,
        selector = (\<lambda>d. Inr (Suc d) :: (string, unit) Thrown + nat),
        retryIf = (\<lambda>d. Inr (Boolean (d = None)) :: (string, unit) Thrown + RetryIf),
        retryDelay = None, maxRetryCount = 2\<rparr> 0),
        useQuery_call
          \<lparr>UseQueryArgs.query = (), variables = (), pause = Some False,
              context_arg = \<lparr>OperationContext.requestPolicy = Some network_only,
                             suspense = Some False\<rparr>\<rparr>]"
    using useRetryableQuery_pause
      [where ToBoolean = "(\<lambda>d. d \<noteq> (0::nat))"
         and urql = "(\<lambda>a. \<lparr>data = (None :: nat option), fetching = True, error = (None :: string option)\<rparr>)"
         and input = "\<lparr>UseRetryableQueryProps.query = (), variables = (), pause = None,
        selector = (\<lambda>d. Inr (Suc d) :: (string, unit) Thrown + nat),
        retryIf = (\<lambda>d. Inr (Boolean (d = None)) :: (string, unit) Thrown + RetryIf),
        retryDelay = None, maxRetryCount = 2\<rparr>"
         and inst = "\<lparr>retryCounts = 0, deps = None,
         waiting = [],
         mounted = True\<rparr>",
       THEN conjunct1]
    by simp
  have g1: "calls (useRetryableQuery (\<lambda>d. d \<noteq> (0::nat))
       (\<lambda>a. \<lparr>data = (None :: nat option), fetching = True, error = (None :: string option)\<rparr>)
       \<lparr>UseRetryableQueryProps.query = (), variables = (), pause = Some True,
        selector = (\<lambda>d. Inr (Suc d) :: (string, unit) Thrown + nat),
        retryIf = (\<lambda>d. Inr (Boolean (d = None)) :: (string, unit) Thrown + RetryIf),
        retryDelay = None, maxRetryCount = 2\<rparr>
       \<lparr>retryCounts = 0, deps = None,
         waiting = [],
         mounted = True\<rparr>)
     = [useAppQuery_call
         (useAppQuery_props \<lparr>UseRetryableQueryProps.query = (), variables = (), pause = Some True,
        selector = (\<lambda>d. Inr (Suc d) :: (string, unit) Thrown + nat),
        retryIf = (\<lambda>d. Inr (Boolean (d = None)) :: (string, unit) Thrown + RetryIf),
        retryDelay = None, maxRetryCount = 2\<rparr> 0),
        useQuery_call
          \<lparr>UseQueryArgs.query = (), variables = (), pause = Some True,
              context_arg = \<lparr>OperationContext.requestPolicy = Some network_only,
                             suspense = Some False\<rparr>\<rparr>]"
    using useRetryableQuery_pause
      [where ToBoolean = "(\<lambda>d. d \<noteq> (0::nat))"
         and urql = "(\<lambda>a. \<lparr>data = (None :: nat option), fetching = True, error = (None :: string option)\<rparr>)"
         and input = "\<lparr>UseRetryableQueryProps.query = (), variables = (), pause = Some True,
        selector = (\<lambda>d. Inr (Suc d) :: (string, unit) Thrown + nat),
        retryIf = (\<lambda>d. Inr (Boolean (d = None)) :: (string, unit) Thrown + RetryIf),
        retryDelay = None, maxRetryCount = 2\<rparr>"
         and inst = "\<lparr>retryCounts = 0, deps = None,
         waiting = [],
         mounted = True\<rparr>",
       THEN conjunct1]
    by simp
  have g2: "calls (useRetryableQuery (\<lambda>d. d \<noteq> (0::nat))
       (\<lambda>a. \<lparr>data = (None :: nat option), fetching = True, error = (None :: string option)\<rparr>)
       \<lparr>UseRetryableQueryProps.query = (), variables = (), pause = Some False,
        selector = (\<lambda>d. Inr (Suc d) :: (string, unit) Thrown + nat),
        retryIf = (\<lambda>d. Inr (Boolean (d = None)) :: (string, unit) Thrown + RetryIf),
        retryDelay = None, maxRetryCount = 2\<rparr>
       \<lparr>retryCounts = 2, deps = None,
         waiting = [],
         mounted = True\<rparr>)
     = [useAppQuery_call
         (useAppQuery_props \<lparr>UseRetryableQueryProps.query = (), variables = (), pause = Some False,
        selector = (\<lambda>d. Inr (Suc d) :: (string, unit) Thrown + nat),
        retryIf = (\<lambda>d. Inr (Boolean (d = None)) :: (string, unit) Thrown + RetryIf),
        retryDelay = None, maxRetryCount = 2\<rparr> 2),
        useQuery_call
          \<lparr>UseQueryArgs.query = (), variables = (), pause = Some True,
              context_arg = \<lparr>OperationContext.requestPolicy = Some network_only,
                             suspense = Some False\<rparr>\<rparr>]"
    using useRetryableQuery_pause
      [where ToBoolean = "(\<lambda>d. d \<noteq> (0::nat))"
         and urql = "(\<lambda>a. \<lparr>data = (None :: nat option), fetching = True, error = (None :: string option)\<rparr>)"
         and input = "\<lparr>UseRetryableQueryProps.query = (), variables = (), pause = Some False,
        selector = (\<lambda>d. Inr (Suc d) :: (string, unit) Thrown + nat),
        retryIf = (\<lambda>d. Inr (Boolean (d = None)) :: (string, unit) Thrown + RetryIf),
        retryDelay = None, maxRetryCount = 2\<rparr>"
         and inst = "\<lparr>retryCounts = 2, deps = None,
         waiting = [],
         mounted = True\<rparr>",
       THEN conjunct1]
    by simp
  have g3: "outcome (useRetryableQuery (\<lambda>d. d \<noteq> (0::nat))
       (\<lambda>a. \<lparr>data = (None :: nat option), fetching = True, error = (None :: string option)\<rparr>)
       \<lparr>UseRetryableQueryProps.query = (), variables = (), pause = None,
        selector = (\<lambda>d. Inr (Suc d) :: (string, unit) Thrown + nat),
        retryIf = (\<lambda>d. Inr (Boolean (d = None)) :: (string, unit) Thrown + RetryIf),
        retryDelay = None, maxRetryCount = 2\<rparr>
       \<lparr>retryCounts = 0, deps = None,
         waiting = [],
         mounted = True\<rparr>)
     = Inr \<lparr>result = RetryingResult 0, refetch = refetch_callback, rawValue = None\<rparr>
   \<and> rawValue \<lparr>result = RetryingResult 0, refetch = refetch_callback, rawValue = None\<rparr>
     = data ((\<lambda>a. \<lparr>data = (None :: nat option), fetching = True, error = (None :: string option)\<rparr>)
          \<lparr>UseQueryArgs.query = (), variables = (), pause = Some False,
              context_arg = \<lparr>OperationContext.requestPolicy = Some network_only,
                             suspense = Some False\<rparr>\<rparr>)"
  proof -
    have o: "outcome (useRetryableQuery (\<lambda>d. d \<noteq> (0::nat))
       (\<lambda>a. \<lparr>data = (None :: nat option), fetching = True, error = (None :: string option)\<rparr>)
       \<lparr>UseRetryableQueryProps.query = (), variables = (), pause = None,
        selector = (\<lambda>d. Inr (Suc d) :: (string, unit) Thrown + nat),
        retryIf = (\<lambda>d. Inr (Boolean (d = None)) :: (string, unit) Thrown + RetryIf),
        retryDelay = None, maxRetryCount = 2\<rparr>
       \<lparr>retryCounts = 0, deps = None,
         waiting = [],
         mounted = True\<rparr>)
     = Inr \<lparr>result = RetryingResult 0, refetch = refetch_callback, rawValue = None\<rparr>"
      by (simp add: useRetryableQuery_def useAppQuery_def useAppQuery_props_def
          shouldPause_def resultWrapper_def retry_return_def Let_def)
    have "rawValue \<lparr>result = RetryingResult 0, refetch = refetch_callback, rawValue = None\<rparr>
     = data ((\<lambda>a. \<lparr>data = (None :: nat option), fetching = True, error = (None :: string option)\<rparr>)
          \<lparr>UseQueryArgs.query = (), variables = (), pause = Some False,
              context_arg = \<lparr>OperationContext.requestPolicy = Some network_only,
                             suspense = Some False\<rparr>\<rparr>)"
      using useRetryableQuery_pause
      [where ToBoolean = "(\<lambda>d. d \<noteq> (0::nat))"
         and urql = "(\<lambda>a. \<lparr>data = (None :: nat option), fetching = True, error = (None :: string option)\<rparr>)"
         and input = "\<lparr>UseRetryableQueryProps.query = (), variables = (), pause = None,
        selector = (\<lambda>d. Inr (Suc d) :: (string, unit) Thrown + nat),
        retryIf = (\<lambda>d. Inr (Boolean (d = None)) :: (string, unit) Thrown + RetryIf),
        retryDelay = None, maxRetryCount = 2\<rparr>"
         and inst = "\<lparr>retryCounts = 0, deps = None,
         waiting = [],
         mounted = True\<rparr>",
       THEN conjunct2, THEN conjunct2, rule_format, OF o]
      by simp
    with o show ?thesis by simp
  qed
  from g0 g1 g2 g3 show ?thesis by blast
qed

text \<open>
  C7. With \<open>maxRetryCount\<close> \<open>0\<close>, on every render the one query handed to urql is paused,
  and the hook returns the error result "Max retry count exceeded", whatever verdict
  \<open>retryIf\<close> gives and whatever the client reports; no retry is scheduled.
\<close>

theorem maxRetryCount_zero:
  fixes urql :: "('q, 'v) UseQueryArgs \<Rightarrow> ('d, 'c) UseQueryState"
    and input :: "('q, 'v, 'd, 's, 'e, 'x) UseRetryableQueryProps"
  assumes "maxRetryCount input = 0"
  shows "calls (useRetryableQuery ToBoolean urql input inst)
           = [useAppQuery_call (useAppQuery_props input (retryCounts inst)),
              useQuery_call (useQuery_args (useAppQuery_props input (retryCounts inst)))]
       \<and> UseQueryArgs.pause (useQuery_args (useAppQuery_props input (retryCounts inst)))
           = Some True
       \<and> (retryIf input (data (urql (useQuery_args
                               (useAppQuery_props input (retryCounts inst))))) = Inr verdict \<longrightarrow>
           outcome (useRetryableQuery ToBoolean urql input inst)
             = Inr \<lparr>result = Query (ErrorResult (Error ''Max retry count exceeded'')),
                    refetch = refetch_callback,
                    rawValue = data (urql (useQuery_args
                                 (useAppQuery_props input (retryCounts inst))))\<rparr>)
       \<and> waiting (committed (useRetryableQuery ToBoolean urql input inst)) = waiting inst"
proof -
  obtain q where q:
    "outcome (useAppQuery ToBoolean urql (useAppQuery_props input (retryCounts inst))) = Inr q"
    using useAppQuery_Inr by blast
  note f = useAppQuery_fields [OF q]
  have p: "UseQueryArgs.pause (useQuery_args (useAppQuery_props input (retryCounts inst)))
      = Some True"
    using assms by (simp add: useQuery_args_def useAppQuery_props_def shouldPause_def)
  have r: "outcome (useRetryableQuery ToBoolean urql input inst)
             = Inr \<lparr>result = Query (ErrorResult (Error ''Max retry count exceeded'')),
                    refetch = refetch_callback,
                    rawValue = data (urql (useQuery_args
                                 (useAppQuery_props input (retryCounts inst))))\<rparr>"
    if "retryIf input (data (urql (useQuery_args
          (useAppQuery_props input (retryCounts inst))))) = Inr verdict"
  proof -
    from that f have v: "retryIf input (rawValue q) = Inr verdict" by simp
    show ?thesis
      unfolding useRetryableQuery_outcome [OF q v]
      using assms f by (simp add: retry_return_def)
  qed
  have w: "waiting (committed (useRetryableQuery ToBoolean urql input inst)) = waiting inst"
  proof (cases "retryIf input (rawValue q)")
    case (Inl t)
    then show ?thesis
      using useRetryableQuery_throws [OF q Inl] by simp
  next
    case (Inr v)
    show ?thesis
      unfolding useRetryableQuery_committed [OF q Inr]
      using assms by (simp add: useEffect_def effect_callback_def)
  qed
  from useRetryableQuery_calls [of ToBoolean urql input inst] p r w show ?thesis by blast
qed

theorem maxRetryCount_zero_witness:
  "calls (useRetryableQuery (\<lambda>d. d \<noteq> (0::nat))
       (\<lambda>a. \<lparr>data = (None :: nat option), fetching = True, error = (None :: string option)\<rparr>)
       \<lparr>UseRetryableQueryProps.query = (), variables = (), pause = None,
        selector = (\<lambda>d. Inr (Suc d) :: (string, unit) Thrown + nat),
        retryIf = (\<lambda>d. Inr (Boolean True) :: (string, unit) Thrown + RetryIf),
        retryDelay = None, maxRetryCount = 0\<rparr>
       \<lparr>retryCounts = 0, deps = None,
         waiting = [],
         mounted = True\<rparr>)
     = [useAppQuery_call
         (useAppQuery_props \<lparr>UseRetryableQueryProps.query = (), variables = (), pause = None,
        selector = (\<lambda>d. Inr (Suc d) :: (string, unit) Thrown + nat),
        retryIf = (\<lambda>d. Inr (Boolean True) :: (string, unit) Thrown + RetryIf),
        retryDelay = None, maxRetryCount = 0\<rparr> 0),
        useQuery_call
          (useQuery_args (useAppQuery_props \<lparr>UseRetryableQueryProps.query = (), variables = (), pause = None,
        selector = (\<lambda>d. Inr (Suc d) :: (string, unit) Thrown + nat),
        retryIf = (\<lambda>d. Inr (Boolean True) :: (string, unit) Thrown + RetryIf),
        retryDelay = None, maxRetryCount = 0\<rparr> 0))]
   \<and> UseQueryArgs.pause (useQuery_args (useAppQuery_props
       \<lparr>UseRetryableQueryProps.query = (), variables = (), pause = None,
        selector = (\<lambda>d. Inr (Suc d) :: (string, unit) Thrown + nat),
        retryIf = (\<lambda>d. Inr (Boolean True) :: (string, unit) Thrown + RetryIf),
        retryDelay = None, maxRetryCount = 0\<rparr> 0))
     = Some True
   \<and> outcome (useRetryableQuery (\<lambda>d. d \<noteq> (0::nat))
       (\<lambda>a. \<lparr>data = (None :: nat option), fetching = True, error = (None :: string option)\<rparr>)
       \<lparr>UseRetryableQueryProps.query = (), variables = (), pause = None,
        selector = (\<lambda>d. Inr (Suc d) :: (string, unit) Thrown + nat),
        retryIf = (\<lambda>d. Inr (Boolean True) :: (string, unit) Thrown + RetryIf),
        retryDelay = None, maxRetryCount = 0\<rparr>
       \<lparr>retryCounts = 0, deps = None,
         waiting = [],
         mounted = True\<rparr>)
     = Inr \<lparr>result = Query (ErrorResult (Error ''Max retry count exceeded'')), refetch = refetch_callback, rawValue = None\<rparr>
   \<and> waiting (committed (useRetryableQuery (\<lambda>d. d \<noteq> (0::nat))
       (\<lambda>a. \<lparr>data = (None :: nat option), fetching = True, error = (None :: string option)\<rparr>)
       \<lparr>UseRetryableQueryProps.query = (), variables = (), pause = None,
        selector = (\<lambda>d. Inr (Suc d) :: (string, unit) Thrown + nat),
        retryIf = (\<lambda>d. Inr (Boolean True) :: (string, unit) Thrown + RetryIf),
        retryDelay = None, maxRetryCount = 0\<rparr>
       \<lparr>retryCounts = 0, deps = None,
         waiting = [],
         mounted = True\<rparr>))
     = []"
  using maxRetryCount_zero
      [where ToBoolean = "(\<lambda>d. d \<noteq> (0::nat))"
         and urql = "(\<lambda>a. \<lparr>data = (None :: nat option), fetching = True, error = (None :: string option)\<rparr>)"
         and input = "\<lparr>UseRetryableQueryProps.query = (), variables = (), pause = None,
        selector = (\<lambda>d. Inr (Suc d) :: (string, unit) Thrown + nat),
        retryIf = (\<lambda>d. Inr (Boolean True) :: (string, unit) Thrown + RetryIf),
        retryDelay = None, maxRetryCount = 0\<rparr>"
         and inst = "\<lparr>retryCounts = 0, deps = None,
         waiting = [],
         mounted = True\<rparr>"
         and verdict = "Boolean True"]
  by simp

text \<open>
  C10. In every render the retry hook calls the classifier with the request policy
  network-only, for every input: the input has no field for a request policy. The one
  query the classifier then makes of urql carries that policy.
\<close>

theorem useRetryableQuery_requestPolicy:
  fixes urql :: "('q, 'v) UseQueryArgs \<Rightarrow> ('d, 'c) UseQueryState"
    and input :: "('q, 'v, 'd, 's, 'e, 'x) UseRetryableQueryProps"
  shows "calls (useRetryableQuery ToBoolean urql input inst)
           = [useAppQuery_call
                \<lparr>UseAppQueryProps.query = UseRetryableQueryProps.query input,
              UseAppQueryProps.variables = UseRetryableQueryProps.variables input,
              selector = UseRetryableQueryProps.selector input,
              paused = Some (shouldPause input (retryCounts inst)),
              requestPolicy = Some network_only\<rparr>,
              useQuery_call (useQuery_args (useAppQuery_props input (retryCounts inst)))]
       \<and> OperationContext.requestPolicy
           (context_arg (useQuery_args (useAppQuery_props input (retryCounts inst))))
           = Some network_only
       \<and> (\<forall>r. outcome (useRetryableQuery ToBoolean urql input inst) = Inr r \<longrightarrow>
              rawValue r = data (urql (useQuery_args
                \<lparr>UseAppQueryProps.query = UseRetryableQueryProps.query input,
              UseAppQueryProps.variables = UseRetryableQueryProps.variables input,
              selector = UseRetryableQueryProps.selector input,
              paused = Some (shouldPause input (retryCounts inst)),
              requestPolicy = Some network_only\<rparr>)))"
proof -
  have a: "useAppQuery_props input (retryCounts inst)
      = \<lparr>UseAppQueryProps.query = UseRetryableQueryProps.query input,
              UseAppQueryProps.variables = UseRetryableQueryProps.variables input,
              selector = UseRetryableQueryProps.selector input,
              paused = Some (shouldPause input (retryCounts inst)),
              requestPolicy = Some network_only\<rparr>"
    by (simp add: useAppQuery_props_def)
  have b: "OperationContext.requestPolicy
      (context_arg (useQuery_args (useAppQuery_props input (retryCounts inst))))
      = Some network_only"
    by (simp add: useQuery_args_def useAppQuery_props_def)
  have r: "rawValue r
      = data (urql (useQuery_args (useAppQuery_props input (retryCounts inst))))"
    if "outcome (useRetryableQuery ToBoolean urql input inst) = Inr r" for r
    using that by (rule useRetryableQuery_rawValue)
  show ?thesis
    using useRetryableQuery_calls [of ToBoolean urql input inst] b r
    unfolding a by blast
qed

theorem useRetryableQuery_requestPolicy_witness:
  "calls (useRetryableQuery (\<lambda>d. d \<noteq> (0::nat))
       (\<lambda>a. \<lparr>data = (None :: nat option), fetching = True, error = (None :: string option)\<rparr>)
       \<lparr>UseRetryableQueryProps.query = (), variables = (), pause = Some True,
        selector = (\<lambda>d. Inr (Suc d) :: (string, unit) Thrown + nat),
        retryIf = (\<lambda>d. Inr (Boolean (d = None)) :: (string, unit) Thrown + RetryIf),
        retryDelay = None, maxRetryCount = 2\<rparr>
       \<lparr>retryCounts = 0, deps = None,
         waiting = [],
         mounted = True\<rparr>)
     = [useAppQuery_call
          \<lparr>UseAppQueryProps.query = (), variables = (),
        selector = (\<lambda>d. Inr (Suc d) :: (string, unit) Thrown + nat),
        paused = Some True, requestPolicy = Some network_only\<rparr>,
        useQuery_call
          \<lparr>UseQueryArgs.query = (), variables = (), pause = Some True,
              context_arg = \<lparr>OperationContext.requestPolicy = Some network_only,
                             suspense = Some False\<rparr>\<rparr>]
   \<and> outcome (useRetryableQuery (\<lambda>d. d \<noteq> (0::nat))
       (\<lambda>a. \<lparr>data = (None :: nat option), fetching = True, error = (None :: string option)\<rparr>)
       \<lparr>UseRetryableQueryProps.query = (), variables = (), pause = Some True,
        selector = (\<lambda>d. Inr (Suc d) :: (string, unit) Thrown + nat),
        retryIf = (\<lambda>d. Inr (Boolean (d = None)) :: (string, unit) Thrown + RetryIf),
        retryDelay = None, maxRetryCount = 2\<rparr>
       \<lparr>retryCounts = 0, deps = None,
         waiting = [],
         mounted = True\<rparr>)
     = Inr \<lparr>result = RetryingResult 0, refetch = refetch_callback, rawValue = None\<rparr>
   \<and> rawValue \<lparr>result = RetryingResult 0, refetch = refetch_callback, rawValue = None\<rparr>
     = data ((\<lambda>a. \<lparr>data = (None :: nat option), fetching = True, error = (None :: string option)\<rparr>)
          (useQuery_args \<lparr>UseAppQueryProps.query = (), variables = (),
        selector = (\<lambda>d. Inr (Suc d) :: (string, unit) Thrown + nat),
        paused = Some True, requestPolicy = Some network_only\<rparr>))"
proof -
  have g0: "calls (useRetryableQuery (\<lambda>d. d \<noteq> (0::nat))
       (\<lambda>a. \<lparr>data = (None :: nat option), fetching = True, error = (None :: string option)\<rparr>)
       \<lparr>UseRetryableQueryProps.query = (), variables = (), pause = Some True,
        selector = (\<lambda>d. Inr (Suc d) :: (string, unit) Thrown + nat),
        retryIf = (\<lambda>d. Inr (Boolean (d = None)) :: (string, unit) Thrown + RetryIf),
        retryDelay = None, maxRetryCount = 2\<rparr>
       \<lparr>retryCounts = 0, deps = None,
         waiting = [],
         mounted = True\<rparr>)
     = [useAppQuery_call
          \<lparr>UseAppQueryProps.query = (), variables = (),
        selector = (\<lambda>d. Inr (Suc d) :: (string, unit) Thrown + nat),
        paused = Some True, requestPolicy = Some network_only\<rparr>,
        useQuery_call
          \<lparr>UseQueryArgs.query = (), variables = (), pause = Some True,
              context_arg = \<lparr>OperationContext.requestPolicy = Some network_only,
                             suspense = Some False\<rparr>\<rparr>]"
    using useRetryableQuery_requestPolicy
      [where ToBoolean = "(\<lambda>d. d \<noteq> (0::nat))"
         and urql = "(\<lambda>a. \<lparr>data = (None :: nat option), fetching = True, error = (None :: string option)\<rparr>)"
         and input = "\<lparr>UseRetryableQueryProps.query = (), variables = (), pause = Some True,
        selector = (\<lambda>d. Inr (Suc d) :: (string, unit) Thrown + nat),
        retryIf = (\<lambda>d. Inr (Boolean (d = None)) :: (string, unit) Thrown + RetryIf),
        retryDelay = None, maxRetryCount = 2\<rparr>"
         and inst = "\<lparr>retryCounts = 0, deps = None,
         waiting = [],
         mounted = True\<rparr>",
       THEN conjunct1]
    by (simp add: useQuery_args_def useAppQuery_props_def shouldPause_def)
  have g1: "outcome (useRetryableQuery (\<lambda>d. d \<noteq> (0::nat))
       (\<lambda>a. \<lparr>data = (None :: nat option), fetching = True, error = (None :: string option)\<rparr>)
       \<lparr>UseRetryableQueryProps.query = (), variables = (), pause = Some True,
        selector = (\<lambda>d. Inr (Suc d) :: (string, unit) Thrown + nat),
        retryIf = (\<lambda>d. Inr (Boolean (d = None)) :: (string, unit) Thrown + RetryIf),
        retryDelay = None, maxRetryCount = 2\<rparr>
       \<lparr>retryCounts = 0, deps = None,
         waiting = [],
         mounted = True\<rparr>)
     = Inr \<lparr>result = RetryingResult 0, refetch = refetch_callback, rawValue = None\<rparr>
   \<and> rawValue \<lparr>result = RetryingResult 0, refetch = refetch_callback, rawValue = None\<rparr>
     = data ((\<lambda>a. \<lparr>data = (None :: nat option), fetching = True, error = (None :: string option)\<rparr>)
          (useQuery_args \<lparr>UseAppQueryProps.query = (), variables = (),
        selector = (\<lambda>d. Inr (Suc d) :: (string, unit) Thrown + nat),
        paused = Some True, requestPolicy = Some network_only\<rparr>))"
  proof -
    have o: "outcome (useRetryableQuery (\<lambda>d. d \<noteq> (0::nat))
       (\<lambda>a. \<lparr>data = (None :: nat option), fetching = True, error = (None :: string option)\<rparr>)
       \<lparr>UseRetryableQueryProps.query = (), variables = (), pause = Some True,
        selector = (\<lambda>d. Inr (Suc d) :: (string, unit) Thrown + nat),
        retryIf = (\<lambda>d. Inr (Boolean (d = None)) :: (string, unit) Thrown + RetryIf),
        retryDelay = None, maxRetryCount = 2\<rparr>
       \<lparr>retryCounts = 0, deps = None,
         waiting = [],
         mounted = True\<rparr>)
     = Inr \<lparr>result = RetryingResult 0, refetch = refetch_callback, rawValue = None\<rparr>"
      by (simp add: useRetryableQuery_def useAppQuery_def useAppQuery_props_def
          shouldPause_def resultWrapper_def retry_return_def Let_def)
    have "rawValue \<lparr>result = RetryingResult 0, refetch = refetch_callback, rawValue = None\<rparr>
     = data ((\<lambda>a. \<lparr>data = (None :: nat option), fetching = True, error = (None :: string option)\<rparr>)
          (useQuery_args \<lparr>UseAppQueryProps.query = (), variables = (),
        selector = (\<lambda>d. Inr (Suc d) :: (string, unit) Thrown + nat),
        paused = Some True, requestPolicy = Some network_only\<rparr>))"
      using useRetryableQuery_requestPolicy
      [where ToBoolean = "(\<lambda>d. d \<noteq> (0::nat))"
         and urql = "(\<lambda>a. \<lparr>data = (None :: nat option), fetching = True, error = (None :: string option)\<rparr>)"
         and input = "\<lparr>UseRetryableQueryProps.query = (), variables = (), pause = Some True,
        selector = (\<lambda>d. Inr (Suc d) :: (string, unit) Thrown + nat),
        retryIf = (\<lambda>d. Inr (Boolean (d = None)) :: (string, unit) Thrown + RetryIf),
        retryDelay = None, maxRetryCount = 2\<rparr>"
         and inst = "\<lparr>retryCounts = 0, deps = None,
         waiting = [],
         mounted = True\<rparr>",
       THEN conjunct2, THEN conjunct2, rule_format, OF o]
      by (simp add: shouldPause_def)
    with o show ?thesis by simp
  qed
  from g0 g1 show ?thesis by blast
qed

section \<open>The refetch action and the error causes\<close>

text \<open>
  C8. The \<open>refetch\<close> that \<open>useAppQuery\<close> returns, on every return path and whatever request
  policy the props configure, makes one call of the client's execute function, with the
  request policy network-only.
\<close>

theorem useAppQuery_refetch:
  fixes urql :: "('q, 'v) UseQueryArgs \<Rightarrow> ('d, 'c) UseQueryState"
    and props :: "('q, 'v, 'd, 's, 'e, 'x) UseAppQueryProps"
  shows "\<exists>r. outcome (useAppQuery ToBoolean urql props) = Inr r
     \<and> refetch r = [executeQuery \<lparr>OperationContext.requestPolicy = Some network_only,
                                   suspense = None\<rparr>]"
proof -
  obtain r where r: "outcome (useAppQuery ToBoolean urql props) = Inr r"
    using useAppQuery_Inr by blast
  then have "refetch r = refetch_callback"
    using useAppQuery_fields by blast
  with r show ?thesis
    by (simp add: refetch_callback_def)
qed

theorem useAppQuery_refetch_witness:
  "\<exists>r. outcome (useAppQuery (\<lambda>d. d \<noteq> (0::nat))
       (\<lambda>a. \<lparr>data = Some (3::nat), fetching = False, error = (None :: string option)\<rparr>)
       \<lparr>UseAppQueryProps.query = (), variables = (),
        selector = (\<lambda>d. Inr (Suc d) :: (string, unit) Thrown + nat),
        paused = None, requestPolicy = Some cache_first\<rparr>)
     = Inr r
   \<and> refetch r = [executeQuery \<lparr>OperationContext.requestPolicy = Some network_only, suspense = None\<rparr>]"
  using useAppQuery_refetch
      [where ToBoolean = "(\<lambda>d. d \<noteq> (0::nat))"
         and urql = "(\<lambda>a. \<lparr>data = Some (3::nat), fetching = False, error = (None :: string option)\<rparr>)"
         and props = "\<lparr>UseAppQueryProps.query = (), variables = (),
        selector = (\<lambda>d. Inr (Suc d) :: (string, unit) Thrown + nat),
        paused = None, requestPolicy = Some cache_first\<rparr>"]
  by simp






end
